theory Spec2Isabelle
  imports Complex_Main "HOL-Library.Word" "HOL-Library.Code_Target_Numeral"
begin

text \<open>
  The message pipeline of the chatbot console: the rule-based intent classifier, the two
  response generators, the record store, the three channel adapters (Telegram, WhatsApp,
  Messenger) and the live fan-out channel, each translated from its TypeScript source,
  followed by the properties of the specification that were checked against them.
\<close>

section \<open>JavaScript strings\<close>

text \<open>
  A JavaScript string is modelled as a \<^typ>\<open>string\<close>: a list of characters, each one a
  code unit below 256 (the Latin-1 range). The library functions the server calls on
  strings are written out below on that range.
\<close>

definition isUpperCase :: "char \<Rightarrow> bool" where
  "isUpperCase c =
     (let n = (of_char c :: nat)
      in (65 \<le> n \<and> n \<le> 90) \<or> (192 \<le> n \<and> n \<le> 222 \<and> n \<noteq> 215))"

text \<open>
  Every upper-case letter of the range has bit 5 clear, and its lower-case letter is
  32 above it: lowering a letter sets that bit.
\<close>

definition toLowerChar :: "char \<Rightarrow> char" where
  "toLowerChar c =
     (if isUpperCase c
      then Char (digit0 c) (digit1 c) (digit2 c) (digit3 c) (digit4 c) True (digit6 c) (digit7 c)
      else c)"

definition toLowerCase :: "string \<Rightarrow> string" where
  "toLowerCase s = map toLowerChar s"

definition isWhiteSpace :: "char \<Rightarrow> bool" where
  "isWhiteSpace c =
     (let n = (of_char c :: nat)
      in (9 \<le> n \<and> n \<le> 13) \<or> n = 32 \<or> n = 160)"

definition trim :: "string \<Rightarrow> string" where
  "trim s = rev (dropWhile isWhiteSpace (rev (dropWhile isWhiteSpace s)))"

text \<open>\<^verbatim>\<open>s.split(' ')\<close>: the pieces between single spaces; the empty string gives one empty piece.\<close>

fun split_space :: "string \<Rightarrow> string list" where
  "split_space [] = [[]]"
| "split_space (c # cs) =
     (if c = CHR '' '' then [] # split_space cs
      else (case split_space cs of
              [] \<Rightarrow> [[c]]
            | w # ws \<Rightarrow> (c # w) # ws))"

fun startsWith :: "string \<Rightarrow> string \<Rightarrow> bool" where
  "startsWith s [] = True"
| "startsWith [] (p # ps) = False"
| "startsWith (c # cs) (p # ps) = (c = p \<and> startsWith cs ps)"

text \<open>\<^verbatim>\<open>s.includes(sub)\<close>: \<open>sub\<close> occurs in \<open>s\<close> as a contiguous substring.\<close>

fun str_includes :: "string \<Rightarrow> string \<Rightarrow> bool" where
  "str_includes [] sub = (sub = [])"
| "str_includes (c # cs) sub = (startsWith (c # cs) sub \<or> str_includes cs sub)"

text \<open>
  \<^verbatim>\<open>s.indexOf(sub)\<close> split into the text in front of the first occurrence and the text behind
  it; \<open>None\<close> when \<open>sub\<close> does not occur.
\<close>

fun splitAtFirst :: "string \<Rightarrow> string \<Rightarrow> (string \<times> string) option" where
  "splitAtFirst [] sub = (if sub = [] then Some ([], []) else None)"
| "splitAtFirst (c # cs) sub =
     (if startsWith (c # cs) sub then Some ([], drop (length sub) (c # cs))
      else (case splitAtFirst cs sub of
              None \<Rightarrow> None
            | Some (pre, post) \<Rightarrow> Some (c # pre, post)))"

text \<open>
  The replacement text of \<^verbatim>\<open>String.prototype.replace\<close> with a string pattern (no capture
  groups): \<^verbatim>\<open>$$\<close> is a dollar sign, \<^verbatim>\<open>$&\<close> the matched text, \<^verbatim>\<open>$`\<close> the text in front of the
  match, \<^verbatim>\<open>$'\<close> the text behind it; every other character stands for itself.
\<close>

fun getSubstitution :: "string \<Rightarrow> string \<Rightarrow> string \<Rightarrow> string \<Rightarrow> string" where
  "getSubstitution matched pre post [] = []"
| "getSubstitution matched pre post [c] = [c]"
| "getSubstitution matched pre post (c # d # rest) =
     (if c = CHR ''$'' \<and> d = CHR ''$'' then CHR ''$'' # getSubstitution matched pre post rest
      else if c = CHR ''$'' \<and> d = CHR ''&'' then matched @ getSubstitution matched pre post rest
      else if c = CHR ''$'' \<and> d = CHR 0x60 then pre @ getSubstitution matched pre post rest
      else if c = CHR ''$'' \<and> d = CHR 0x27 then post @ getSubstitution matched pre post rest
      else c # getSubstitution matched pre post (d # rest))"

text \<open>\<^verbatim>\<open>s.replace(pattern, replacement)\<close> with a string pattern: the first occurrence only.\<close>

definition replace :: "string \<Rightarrow> string \<Rightarrow> string \<Rightarrow> string" where
  "replace s pattern replacement =
     (case splitAtFirst s pattern of
        None \<Rightarrow> s
      | Some (pre, post) \<Rightarrow> pre @ getSubstitution pattern pre post replacement @ post)"

section \<open>The rule-based processor (simple-processor.ts)\<close>

datatype sentiment = Positive | Negative | Neutral

record processedMessage =
  intent :: string
  entities :: "string \<rightharpoonup> string"
  sentiment :: sentiment
  confidence :: rat
  pm_keywords :: "string list"

definition classifyIntent :: "string \<Rightarrow> string" where
  "classifyIntent message =
     (if str_includes message ''hello'' \<or> str_includes message ''hi'' \<or> str_includes message ''hey''
      then ''greeting''
      else if str_includes message ''help'' \<or> str_includes message ''support''
      then ''help_request''
      else if str_includes message ''thank'' \<or> str_includes message ''thanks''
      then ''gratitude''
      else if str_includes message ''bye'' \<or> str_includes message ''goodbye''
      then ''farewell''
      else if str_includes message ''price'' \<or> str_includes message ''cost''
              \<or> str_includes message ''payment''
      then ''pricing_inquiry''
      else if str_includes message ''delivery'' \<or> str_includes message ''shipping''
      then ''delivery_inquiry''
      else ''general_inquiry'')"

definition positiveWords :: "string list" where
  "positiveWords = [''good'', ''great'', ''excellent'', ''amazing'', ''wonderful'', ''love'',
     ''like'', ''happy'', ''pleased'']"

definition negativeWords :: "string list" where
  "negativeWords = [''bad'', ''terrible'', ''awful'', ''hate'', ''dislike'', ''angry'',
     ''frustrated'', ''disappointed'']"

definition analyzeSentiment :: "string \<Rightarrow> sentiment" where
  "analyzeSentiment text =
     (let ws = split_space text;
          positiveCount = length (filter (\<lambda>w. w \<in> set positiveWords) ws);
          negativeCount = length (filter (\<lambda>w. w \<in> set negativeWords) ws)
      in if positiveCount > negativeCount then Positive
         else if negativeCount > positiveCount then Negative
         else Neutral)"

definition stopWords :: "string list" where
  "stopWords = [''the'', ''is'', ''at'', ''which'', ''on'', ''a'', ''an'', ''and'', ''or'', ''but'',
     ''in'', ''with'', ''to'', ''for'', ''of'', ''as'', ''by'', ''that'', ''this'', ''it'', ''from'',
     ''they'', ''we'', ''say'', ''her'', ''she'', ''he'', ''will'', ''my'', ''one'', ''all'',
     ''would'', ''there'', ''their'']"

definition extractKeywords :: "string list \<Rightarrow> string list" where
  "extractKeywords tokens =
     take 5 (filter (\<lambda>token. token \<notin> set stopWords \<and> length token > 2) tokens)"

definition processMessage :: "string \<Rightarrow> processedMessage" where
  "processMessage message =
     (let cleanMessage = trim (toLowerCase message);
          tokens = filter (\<lambda>token. length token > 0) (split_space cleanMessage)
      in \<lparr> intent = classifyIntent cleanMessage,
           entities = Map.empty,
           sentiment = analyzeSentiment cleanMessage,
           confidence = 3 / 4,
           pm_keywords = extractKeywords tokens \<rparr>)"
section \<open>The stored records (shared/schema.ts)\<close>

text \<open>
  One record per table row. Integer columns are \<^typ>\<open>int\<close>, timestamps are milliseconds
  as \<^typ>\<open>int\<close>, a nullable column is an \<^typ>\<open>'a option\<close>. Field names carry the table's
  prefix. The confidence of a message is an integer column as well; the server code
  supplies it as a JavaScript number, a \<^typ>\<open>rat\<close>, and the row holds what the store
  accepted.
\<close>

datatype jsonValue =
    JString string | JNumber rat | JUndefined | JObject "(string \<times> jsonValue) list"

type_synonym jsonObject = "(string \<times> jsonValue) list"

record botConfig =
  cfg_id :: int
  cfg_name :: string
  cfg_language :: string
  cfg_tone :: string
  confidenceThreshold :: int
  maxResponseTime :: int
  fallbackMessage :: string
  autoTraining :: bool
  cfg_createdAt :: int
  cfg_updatedAt :: int

record platform =
  plat_id :: int
  plat_name :: string
  plat_status :: string
  apiKey :: "string option"
  webhookUrl :: "string option"
  plat_config :: "jsonObject option"
  plat_messagesCount :: int
  plat_lastMessageAt :: "int option"
  plat_createdAt :: int
  plat_updatedAt :: int

record conversation =
  conv_id :: int
  conv_platformId :: int
  conv_userId :: string
  conv_userName :: "string option"
  conv_status :: string
  conv_messagesCount :: int
  conv_lastMessageAt :: "int option"
  conv_createdAt :: int
  conv_updatedAt :: int

record message =
  msg_id :: int
  msg_conversationId :: int
  msg_content :: string
  msg_sender :: string
  msg_confidence :: "rat option"
  msg_responseTime :: "int option"
  msg_templateId :: "int option"
  sentAt :: int

record template =
  tpl_id :: int
  tpl_name :: string
  tpl_category :: string
  tpl_content :: string
  tpl_variables :: "string list option"
  isActive :: bool
  usageCount :: int
  tpl_createdAt :: int
  tpl_updatedAt :: int

record mlModel =
  mdl_id :: int
  mdl_name :: string
  mdl_version :: string
  mdl_accuracy :: int
  mdl_trainingData :: "jsonObject list option"
  mdl_status :: string
  lastTrainedAt :: "int option"
  mdl_createdAt :: int

record log =
  log_id :: int
  log_level :: string
  log_message :: string
  log_details :: "jsonObject option"
  log_source :: string
  log_createdAt :: int

section \<open>The record store and its environment (storage.ts, DatabaseStorage)\<close>

text \<open>
  The store the server runs on is \<open>DatabaseStorage\<close>, over a PostgreSQL database. A table
  is its rows, in the order a plain select (no \<open>ORDER BY\<close>) returns them, which is the
  order of the table's heap, and the next value of its serial id column. An insert
  appends its row. An update writes a new version of each row it changes at the end of
  the heap: the rows it leaves alone keep their order and the updated rows follow them
  (the reuse of freed space by the server's vacuum is not modelled).
\<close>

record 'r table =
  rows :: "'r list"
  nextId :: int

record database =
  botConfigs :: "botConfig table"
  platforms :: "platform table"
  conversations :: "conversation table"
  messages :: "message table"
  templates :: "template table"
  mlModels :: "mlModel table"
  logs :: "log table"

datatype storageOp =
    GetBotConfig | GetAllPlatforms | GetPlatformByName | CreatePlatform | UpdatePlatform
  | GetAllConversations | CreateConversation | UpdateConversation
  | CreateMessage | GetRecentMessages
  | GetAllTemplates | UpdateTemplate
  | GetCurrentMlModel | CreateLog

datatype exn = Error string

datatype fetchOutcome = NetworkError string | HttpResponse bool string

record httpRequest =
  req_url :: string
  req_headers :: "(string \<times> string) list"
  req_body :: jsonObject

datatype messageType = stats_update | new_message | platform_status | ml_update | log_update

record stats =
  totalMessages :: int
  activeUsers :: nat
  responseRate :: int
  avgResponseTime :: int
  todayMessages :: nat
  mlAccuracy :: int
  activePlatforms :: nat

datatype messageData =
    StatsData stats
  | PlatformsData "platform list"
  | MessagesData "message list"
  | ModelData "mlModel option"
  | LogData log

record webSocketMessage =
  ws_type :: messageType
  ws_data :: messageData

text \<open>
  The WebSocket manager (websocket.ts): the set of connected clients, in insertion
  order, and for every socket whether its \<open>readyState\<close> is \<open>OPEN\<close> and what has been
  sent on it.
\<close>

record webSocketManager =
  clients :: "nat list"
  isOpen :: "nat \<Rightarrow> bool"
  delivered :: "nat \<Rightarrow> webSocketMessage list"

text \<open>What another task of the event loop does to the manager while a function is suspended.\<close>

datatype task = Broadcast webSocketMessage | Close nat

text \<open>
  The environment of an asynchronous server function, which the code cannot change:
  \<open>fails op n\<close> says that storage method \<open>op\<close>, called as external operation number
  \<open>n\<close>, throws; \<open>fetchResult n\<close> is what an HTTP request made as operation \<open>n\<close> comes back
  with; \<open>clock n\<close> is the time read once \<open>n\<close> operations are done; \<open>startOfDay t\<close> is the
  local midnight before \<open>t\<close>; \<open>interleaved n\<close> are the tasks the event loop runs while
  operation \<open>n\<close> is awaited.
\<close>

record env =
  fails :: "storageOp \<Rightarrow> nat \<Rightarrow> bool"
  fetchResult :: "nat \<Rightarrow> fetchOutcome"
  clock :: "nat \<Rightarrow> int"
  startOfDay :: "int \<Rightarrow> int"
  interleaved :: "nat \<Rightarrow> task list"

text \<open>
  What the code can change: the database, the console, the outbound HTTP requests made
  and the WebSocket manager. \<open>calls\<close> lists the storage methods invoked so far, in
  order, and \<open>tick\<close> counts the external operations performed (storage calls and HTTP
  requests). \<open>unhandled\<close> lists the rejections of promises that nothing awaits or
  catches; what the runtime then does with the process is outside the model.
\<close>

record world =
  db :: database
  console :: "string list"
  requests :: "httpRequest list"
  sockets :: webSocketManager
  calls :: "storageOp list"
  tick :: nat
  unhandled :: "exn list"

type_synonym 'a io = "env \<Rightarrow> world \<Rightarrow> (exn + 'a) \<times> world"

definition io_return :: "'a \<Rightarrow> 'a io" where
  "io_return a e w = (Inr a, w)"

definition io_throw :: "exn \<Rightarrow> 'a io" where
  "io_throw x e w = (Inl x, w)"

text \<open>\<^verbatim>\<open>const a = await m; f(a)\<close>: an exception of \<open>m\<close> skips \<open>f\<close>.\<close>

definition io_bind :: "'a io \<Rightarrow> ('a \<Rightarrow> 'b io) \<Rightarrow> 'b io" where
  "io_bind m f e w = (case m e w of (Inl x, w') \<Rightarrow> (Inl x, w') | (Inr a, w') \<Rightarrow> f a e w')"

text \<open>\<^verbatim>\<open>try { m } catch (error) { handler(error) }\<close>\<close>

definition tryCatch :: "'a io \<Rightarrow> (exn \<Rightarrow> 'a io) \<Rightarrow> 'a io" where
  "tryCatch m handler e w =
     (case m e w of (Inl x, w') \<Rightarrow> handler x e w' | (Inr a, w') \<Rightarrow> (Inr a, w'))"

text \<open>\<^verbatim>\<open>error instanceof Error ? error.message : 'Unknown error'\<close>\<close>

fun errorMessage :: "exn \<Rightarrow> string" where
  "errorMessage (Error m) = m"

text \<open>
  The \<open>TypeError\<close> of reading a property of \<open>undefined\<close>, with the message the runtime
  (Node.js) gives it.
\<close>

definition cannotRead :: "string \<Rightarrow> exn" where
  "cannotRead property =
     Error (''Cannot read properties of undefined (reading '' @ [CHR 0x27] @ property
            @ [CHR 0x27] @ '')'')"

text \<open>\<^verbatim>\<open>Date.now()\<close> and \<^verbatim>\<open>new Date()\<close>\<close>

definition now :: "env \<Rightarrow> world \<Rightarrow> int" where
  "now e w = clock e (tick w)"

definition dateNow :: "int io" where
  "dateNow e w = (Inr (now e w), w)"

text \<open>
  One call of a storage method \<open>op\<close>: it is recorded and counted, and either throws, as the
  environment says (the connection, the server), or runs the query \<open>q\<close> on the database
  at the current time; the query returns its result or the error of the server's own
  checks.
\<close>

definition storageCall ::
  "storageOp \<Rightarrow> (int \<Rightarrow> database \<Rightarrow> (exn + 'a) \<times> database) \<Rightarrow> 'a io" where
  "storageCall op q e w =
     (let n = tick w;
          w1 = w\<lparr>calls := calls w @ [op], tick := n + 1\<rparr>
      in if fails e op n then (Inl (Error ''storage error''), w1)
         else (case q (now e w1) (db w1) of (r, d) \<Rightarrow> (r, w1\<lparr>db := d\<rparr>)))"

text \<open>
  The server's check of a value written to an \<open>integer\<close> column. The driver sends a
  JavaScript number as its text: the text of a number with a fraction, or of a number
  from \<open>10^21\<close> on (which JavaScript writes with an exponent), is not the text of an
  integer, and an integer outside the 32-bit range does not fit the column. The
  statement is then rejected and nothing is written. The error texts are shortened: the
  server's wording is not part of the source.
\<close>

definition int4 :: "int \<Rightarrow> bool" where
  "int4 i \<longleftrightarrow> - 2147483648 \<le> i \<and> i \<le> 2147483647"

definition checkInteger :: "rat \<Rightarrow> exn option" where
  "checkInteger q =
     (if of_int \<lfloor>q\<rfloor> \<noteq> q \<or> 10 ^ 21 \<le> \<bar>q\<bar>
      then Some (Error ''invalid input syntax for type integer'')
      else if \<not> int4 \<lfloor>q\<rfloor> then Some (Error ''value out of range for type integer'')
      else None)"

text \<open>
  A write that supplies the given values for integer columns: \<open>written\<close> is its result
  and the database after it, \<open>d\<close> the database before it.
\<close>

definition checked :: "rat list \<Rightarrow> 'a \<times> database \<Rightarrow> database \<Rightarrow> (exn + 'a) \<times> database" where
  "checked columns written d =
     (case List.map_filter checkInteger columns of
        [] \<Rightarrow> (Inr (fst written), snd written)
      | x # _ \<Rightarrow> (Inl x, d))"

text \<open>The values of a nullable column that an insert supplies: none for \<open>null\<close>.\<close>

definition supplied :: "'a option \<Rightarrow> 'a list" where
  "supplied v = (case v of None \<Rightarrow> [] | Some x \<Rightarrow> [x])"

text \<open>
  \<^verbatim>\<open>update(table).set(...).where(...)\<close> on the rows of a table: the updated rows, and the
  rows of the table afterwards.
\<close>

definition updateRows :: "('r \<Rightarrow> bool) \<Rightarrow> ('r \<Rightarrow> 'r) \<Rightarrow> 'r list \<Rightarrow> 'r list \<times> 'r list" where
  "updateRows selected upd rs =
     (map upd (filter selected rs),
      filter (\<lambda>r. \<not> selected r) rs @ map upd (filter selected rs))"

text \<open>\<^verbatim>\<open>const [row] = await ...\<close>: the first row of a result, \<open>undefined\<close> when there is none.\<close>

definition firstRow :: "'r list \<Rightarrow> 'r option" where
  "firstRow rs = (case rs of [] \<Rightarrow> None | r # _ \<Rightarrow> Some r)"

definition consoleWrite :: "string \<Rightarrow> unit io" where
  "consoleWrite line e w = (Inr (), w\<lparr>console := console w @ [line]\<rparr>)"

text \<open>
  \<^verbatim>\<open>await fetch(url, {method: 'POST', headers, body})\<close>: the request is made and counted; a
  network failure rejects, anything else is a response with its \<open>ok\<close> flag and status
  text.
\<close>

definition fetch :: "string \<Rightarrow> (string \<times> string) list \<Rightarrow> jsonObject \<Rightarrow> (bool \<times> string) io" where
  "fetch url headers body e w =
     (let n = tick w;
          w1 = w\<lparr>requests := requests w
                    @ [\<lparr>req_url = url, req_headers = headers, req_body = body\<rparr>],
                 tick := n + 1\<rparr>
      in case fetchResult e n of
           NetworkError m \<Rightarrow> (Inl (Error m), w1)
         | HttpResponse ok statusText \<Rightarrow> (Inr (ok, statusText), w1))"

subsection \<open>Bot configuration and templates\<close>

definition getBotConfig :: "botConfig option io" where
  "getBotConfig = storageCall GetBotConfig (\<lambda>t d. (Inr (firstRow (rows (botConfigs d))), d))"

definition getAllTemplates :: "template list io" where
  "getAllTemplates = storageCall GetAllTemplates (\<lambda>t d. (Inr (rows (templates d)), d))"

text \<open>
  \<^verbatim>\<open>updateTemplate(id, template)\<close>: the partial update \<open>upd\<close> assigns the supplied fields;
  the row with that id gets them and a fresh \<open>updatedAt\<close>. The updated row is returned,
  \<open>None\<close> (undefined) when no row has the id. The usage counter is the integer column
  the server code writes here. The other update methods are alike.
\<close>

definition updateTemplate :: "int \<Rightarrow> (template \<Rightarrow> template) \<Rightarrow> template option io" where
  "updateTemplate ident upd =
     storageCall UpdateTemplate
       (\<lambda>t d. case updateRows (\<lambda>r. tpl_id r = ident) (\<lambda>r. (upd r)\<lparr>tpl_updatedAt := t\<rparr>)
                      (rows (templates d)) of
                (updated, rs) \<Rightarrow>
                  checked (map (\<lambda>r. of_int (usageCount r)) updated)
                    (firstRow updated, d\<lparr>templates := (templates d)\<lparr>rows := rs\<rparr>\<rparr>) d)"

subsection \<open>Platforms\<close>

text \<open>
  The insert records hold the columns the server code supplies; the other columns take
  their schema defaults.
\<close>

record insertPlatform =
  ip_name :: string
  ip_status :: string
  ip_apiKey :: "string option"
  ip_webhookUrl :: "string option"
  ip_config :: "jsonObject option"


definition getPlatformByName :: "string \<Rightarrow> platform option io" where
  "getPlatformByName name =
     storageCall GetPlatformByName
       (\<lambda>t d. (Inr (find (\<lambda>p. plat_name p = name) (rows (platforms d))), d))"

definition createPlatform :: "insertPlatform \<Rightarrow> platform io" where
  "createPlatform ip =
     storageCall CreatePlatform
       (\<lambda>t d. let created =
                    \<lparr> plat_id = nextId (platforms d), plat_name = ip_name ip,
                      plat_status = ip_status ip, apiKey = ip_apiKey ip,
                      webhookUrl = ip_webhookUrl ip, plat_config = ip_config ip,
                      plat_messagesCount = 0, plat_lastMessageAt = None,
                      plat_createdAt = t, plat_updatedAt = t \<rparr>
              in (Inr created, d\<lparr>platforms := \<lparr> rows = rows (platforms d) @ [created],
                                                  nextId = nextId (platforms d) + 1 \<rparr>\<rparr>))"

definition updatePlatform :: "int \<Rightarrow> (platform \<Rightarrow> platform) \<Rightarrow> platform option io" where
  "updatePlatform ident upd =
     storageCall UpdatePlatform
       (\<lambda>t d. case updateRows (\<lambda>r. plat_id r = ident) (\<lambda>r. (upd r)\<lparr>plat_updatedAt := t\<rparr>)
                      (rows (platforms d)) of
                (updated, rs) \<Rightarrow>
                  checked (map (\<lambda>r. of_int (plat_messagesCount r)) updated)
                    (firstRow updated, d\<lparr>platforms := (platforms d)\<lparr>rows := rs\<rparr>\<rparr>) d)"

subsection \<open>Conversations\<close>

record insertConversation =
  ic_platformId :: int
  ic_userId :: string
  ic_userName :: "string option"
  ic_status :: string

definition getAllConversations :: "conversation list io" where
  "getAllConversations =
     storageCall GetAllConversations (\<lambda>t d. (Inr (rows (conversations d)), d))"

definition createConversation :: "insertConversation \<Rightarrow> conversation io" where
  "createConversation ic =
     storageCall CreateConversation
       (\<lambda>t d. let created =
                    \<lparr> conv_id = nextId (conversations d), conv_platformId = ic_platformId ic,
                      conv_userId = ic_userId ic, conv_userName = ic_userName ic,
                      conv_status = ic_status ic, conv_messagesCount = 0,
                      conv_lastMessageAt = None, conv_createdAt = t, conv_updatedAt = t \<rparr>
              in checked [of_int (ic_platformId ic)]
                   (created, d\<lparr>conversations := \<lparr> rows = rows (conversations d) @ [created],
                                                    nextId = nextId (conversations d) + 1 \<rparr>\<rparr>) d)"

definition updateConversation ::
  "int \<Rightarrow> (conversation \<Rightarrow> conversation) \<Rightarrow> conversation option io" where
  "updateConversation ident upd =
     storageCall UpdateConversation
       (\<lambda>t d. case updateRows (\<lambda>r. conv_id r = ident) (\<lambda>r. (upd r)\<lparr>conv_updatedAt := t\<rparr>)
                      (rows (conversations d)) of
                (updated, rs) \<Rightarrow>
                  checked (map (\<lambda>r. of_int (conv_messagesCount r)) updated)
                    (firstRow updated, d\<lparr>conversations := (conversations d)\<lparr>rows := rs\<rparr>\<rparr>) d)"

subsection \<open>Messages, models and logs\<close>

record insertMessage =
  im_conversationId :: int
  im_content :: string
  im_sender :: string
  im_confidence :: "rat option"
  im_responseTime :: "int option"
  im_templateId :: "int option"

text \<open>
  \<^verbatim>\<open>insert(messages).values({...message, sentAt: new Date()})\<close>. The conversation id, the
  confidence, the response time and the template id go to integer columns.
\<close>

definition createMessage :: "insertMessage \<Rightarrow> message io" where
  "createMessage im =
     storageCall CreateMessage
       (\<lambda>t d. let created =
                    \<lparr> msg_id = nextId (messages d), msg_conversationId = im_conversationId im,
                      msg_content = im_content im, msg_sender = im_sender im,
                      msg_confidence = im_confidence im, msg_responseTime = im_responseTime im,
                      msg_templateId = im_templateId im, sentAt = t \<rparr>
              in checked ([of_int (im_conversationId im)] @ supplied (im_confidence im)
                          @ map of_int (supplied (im_responseTime im))
                          @ map of_int (supplied (im_templateId im)))
                   (created, d\<lparr>messages := \<lparr> rows = rows (messages d) @ [created],
                                               nextId = nextId (messages d) + 1 \<rparr>\<rparr>) d)"



record insertLog =
  il_level :: string
  il_message :: string
  il_details :: "jsonObject option"
  il_source :: string

definition createLog :: "insertLog \<Rightarrow> log io" where
  "createLog il =
     storageCall CreateLog
       (\<lambda>t d. let created =
                    \<lparr> log_id = nextId (logs d), log_level = il_level il,
                      log_message = il_message il, log_details = il_details il,
                      log_source = il_source il, log_createdAt = t \<rparr>
              in (Inr created, d\<lparr>logs := \<lparr> rows = rows (logs d) @ [created],
                                             nextId = nextId (logs d) + 1 \<rparr>\<rparr>))"

section \<open>The response selector (trainer.ts, MLTrainer)\<close>

record response =
  response :: string
  res_confidence :: rat
  templateId :: "int option"

text \<open>
  \<^verbatim>\<open>processed.entities[variable]\<close>. The entities are a plain object: the map holds its own
  properties, and a name that is not among them is looked up in \<open>Object.prototype\<close>,
  whose members are functions, but for the accessor \<open>__proto__\<close>, which yields
  \<open>Object.prototype\<close> itself.
\<close>

datatype property = Undefined | Text string | Member string | ObjectPrototype

definition prototypeFunctions :: "string list" where
  "prototypeFunctions =
     [''constructor'', ''hasOwnProperty'', ''isPrototypeOf'', ''propertyIsEnumerable'',
      ''toLocaleString'', ''toString'', ''valueOf'', ''__defineGetter__'', ''__defineSetter__'',
      ''__lookupGetter__'', ''__lookupSetter__'']"

definition getProperty :: "(string \<rightharpoonup> string) \<Rightarrow> string \<Rightarrow> property" where
  "getProperty object name =
     (case object name of
        Some v \<Rightarrow> Text v
      | None \<Rightarrow> if name \<in> set prototypeFunctions then Member name
                else if name = ''__proto__'' then ObjectPrototype
                else Undefined)"

text \<open>\<^verbatim>\<open>if (entityValue)\<close>: the empty string and \<open>undefined\<close> are falsy, an object is truthy.\<close>

fun truthy :: "property \<Rightarrow> bool" where
  "truthy Undefined = False"
| "truthy (Text v) = (v \<noteq> [])"
| "truthy (Member name) = True"
| "truthy ObjectPrototype = True"

text \<open>
  A function given to \<^verbatim>\<open>replace\<close> as replacement is called, with \<open>this\<close> undefined, on the
  matched text, its position and the whole string, and its result is converted to a
  string. For the members of \<open>Object.prototype\<close>: \<open>constructor\<close> wraps the matched text,
  \<open>toString\<close> names the undefined receiver, \<open>isPrototypeOf\<close> answers false for a string;
  the others convert the undefined receiver to an object first, a \<open>TypeError\<close>.
\<close>

definition callMember :: "string \<Rightarrow> string \<Rightarrow> exn + string" where
  "callMember name matched =
     (if name = ''constructor'' then Inr matched
      else if name = ''toString'' then Inr ''[object Undefined]''
      else if name = ''isPrototypeOf'' then Inr ''false''
      else if name = ''toLocaleString''
      then Inl (Error ''Object.prototype.toLocaleString called on null or undefined'')
      else Inl (Error ''Cannot convert undefined or null to object''))"

text \<open>
  \<^verbatim>\<open>s.replace(pattern, value)\<close> for a property value: a function is called if the pattern
  occurs, and its result is inserted as it is; anything else is converted to a string
  and used as the replacement text.
\<close>

definition replaceValue :: "string \<Rightarrow> string \<Rightarrow> property \<Rightarrow> exn + string" where
  "replaceValue s pattern v =
     (case v of
        Text replacement \<Rightarrow> Inr (replace s pattern replacement)
      | Member name \<Rightarrow>
          (case splitAtFirst s pattern of
             None \<Rightarrow> Inr s
           | Some (pre, post) \<Rightarrow>
               (case callMember name pattern of
                  Inl x \<Rightarrow> Inl x
                | Inr inserted \<Rightarrow> Inr (pre @ inserted @ post)))
      | ObjectPrototype \<Rightarrow> Inr (replace s pattern ''[object Object]'')
      | Undefined \<Rightarrow> Inr (replace s pattern ''undefined''))"

text \<open>The loop over the template's declared variables.\<close>

fun substituteVariables :: "string \<Rightarrow> string list \<Rightarrow> (string \<rightharpoonup> string) \<Rightarrow> exn + string" where
  "substituteVariables res [] ents = Inr res"
| "substituteVariables res (variable # vars) ents =
     (if truthy (getProperty ents variable)
      then (case replaceValue res (''{'' @ variable @ ''}'') (getProperty ents variable) of
              Inl x \<Rightarrow> Inl x
            | Inr replaced \<Rightarrow> substituteVariables replaced vars ents)
      else substituteVariables res vars ents)"

definition intentResponses :: "string \<rightharpoonup> string" where
  "intentResponses = [
     ''greeting'' \<mapsto> ''Hello! How can I help you today?'',
     ''farewell'' \<mapsto> ''Thank you for contacting us. Have a great day!'',
     ''help'' \<mapsto> ''I'' @ [CHR 0x27] @ ''m here to help. What do you need assistance with?'',
     ''order_inquiry'' \<mapsto>
       ''I can help you with your order. Could you please provide your order number?'',
     ''pricing'' \<mapsto> ''I'' @ [CHR 0x27]
       @ ''d be happy to provide pricing information. What product are you interested in?'',
     ''product_info'' \<mapsto> ''What would you like to know about our products?'',
     ''complaint'' \<mapsto>
       ''I apologize for any inconvenience. Let me help resolve this issue for you.'',
     ''gratitude'' \<mapsto> ''You'' @ [CHR 0x27]
       @ ''re welcome! Is there anything else I can help you with?'',
     ''cancel_request'' \<mapsto> ''I understand you'' @ [CHR 0x27]
       @ ''d like to cancel. Let me help you with that process.'',
     ''delivery_inquiry'' \<mapsto>
       ''I can check on your delivery status. Please provide your order number.'']"

definition templateMatches :: "string \<Rightarrow> template \<Rightarrow> bool" where
  "templateMatches label t =
     (str_includes (toLowerCase (tpl_category t)) label
      \<or> str_includes (toLowerCase (tpl_name t)) label)"

text \<open>
  The response text computed from the matching template: its content, with the loop
  run when the template declares variables. The loop either returns the text or throws.
\<close>

definition renderTemplate :: "template \<Rightarrow> (string \<rightharpoonup> string) \<Rightarrow> exn + string" where
  "renderTemplate t ents =
     (case tpl_variables t of
        None \<Rightarrow> Inr (tpl_content t)
      | Some vars \<Rightarrow> substituteVariables (tpl_content t) vars ents)"

text \<open>The text of a template for the given entities, where the loop returns one.\<close>

definition applyTemplate :: "template \<Rightarrow> (string \<rightharpoonup> string) \<Rightarrow> string" where
  "applyTemplate t ents =
     (case renderTemplate t ents of Inr replaced \<Rightarrow> replaced | Inl x \<Rightarrow> tpl_content t)"

text \<open>
  \<open>generateResponse\<close>. The method awaits three storage calls; between the moment the
  database executes its read of the templates and the moment it executes its update,
  the database can execute the storage operations of other requests. \<open>others\<close> stands
  for them in \<open>generateResponseAmid\<close>; \<open>generateResponse\<close> is the turn that runs alone.
\<close>

definition generateResponseAmid :: "unit io \<Rightarrow> string \<Rightarrow> int \<Rightarrow> response io" where
  "generateResponseAmid others message platformId =
     (let processed = processMessage message
      in io_bind getBotConfig (\<lambda>config.
           case config of
             None \<Rightarrow> io_throw (Error ''Bot configuration not found'')
           | Some botConfig \<Rightarrow>
               if confidence processed < of_int (confidenceThreshold botConfig)
               then io_return \<lparr> response = fallbackMessage botConfig,
                                res_confidence = confidence processed,
                                templateId = None \<rparr>
               else io_bind getAllTemplates (\<lambda>ts.
                 case find (templateMatches (intent processed)) ts of
                   Some matchingTemplate \<Rightarrow>
                     (case renderTemplate matchingTemplate (entities processed) of
                        Inl x \<Rightarrow> io_throw x
                      | Inr replaced \<Rightarrow>
                          io_bind others (\<lambda>_.
                          io_bind
                            (updateTemplate (tpl_id matchingTemplate)
                               (\<lambda>r. r\<lparr>usageCount := usageCount matchingTemplate + 1\<rparr>))
                            (\<lambda>_. io_return
                               \<lparr> response = replaced,
                                 res_confidence = confidence processed,
                                 templateId = Some (tpl_id matchingTemplate) \<rparr>)))
                 | None \<Rightarrow>
                     io_return
                       \<lparr> response = (case intentResponses (intent processed) of
                                       None \<Rightarrow> fallbackMessage botConfig
                                     | Some canned \<Rightarrow> canned),
                         res_confidence = confidence processed,
                         templateId = None \<rparr>)))"

definition generateResponse :: "string \<Rightarrow> int \<Rightarrow> response io" where
  "generateResponse message platformId = generateResponseAmid (io_return ()) message platformId"

section \<open>The response generator of the channel adapters (trainer.ts, SimpleMLTrainer)\<close>

record simpleResponse =
  sr_response :: string
  sr_confidence :: rat
  sr_intent :: string

definition simpleResponseFor :: "string \<Rightarrow> string" where
  "simpleResponseFor label =
     (if label = ''greeting'' then ''Hello! How can I help you today?''
      else if label = ''help_request''
      then ''I'' @ [CHR 0x27] @ ''m here to help! What do you need assistance with?''
      else if label = ''gratitude''
      then ''You'' @ [CHR 0x27] @ ''re welcome! Is there anything else I can help you with?''
      else if label = ''farewell'' then ''Goodbye! Have a great day!''
      else if label = ''pricing_inquiry''
      then ''I can help you with pricing information. What specific product or service are you interested in?''
      else if label = ''delivery_inquiry''
      then ''I can provide delivery information. Could you please share your order details?''
      else ''Thank you for your message. How can I assist you today?'')"

definition simpleGenerateResponse :: "string \<Rightarrow> int \<Rightarrow> simpleResponse io" where
  "simpleGenerateResponse message platformId =
     (let processed = processMessage message
      in io_return \<lparr> sr_response = simpleResponseFor (intent processed),
                     sr_confidence = confidence processed,
                     sr_intent = intent processed \<rparr>)"

section \<open>The in-memory store (storage.ts, MemStorage)\<close>

text \<open>
  The parts of \<open>MemStorage\<close> that \<open>createMessage\<close> touches: the map of messages and the id
  counter shared by all kinds of record.
\<close>

record memStorage =
  mem_messages :: "int \<rightharpoonup> message"
  currentId :: int

text \<open>\<^verbatim>\<open>value || null\<close> on a number: null, undefined and 0 all give null.\<close>

definition orNull :: "'a::zero option \<Rightarrow> 'a option" where
  "orNull v = (case v of None \<Rightarrow> None | Some x \<Rightarrow> if x = 0 then None else Some x)"

definition MemStorage_createMessage ::
  "insertMessage \<Rightarrow> int \<Rightarrow> memStorage \<Rightarrow> message \<times> memStorage" where
  "MemStorage_createMessage insertMessage t s =
     (let ident = currentId s;
          m = \<lparr> msg_id = ident,
                msg_conversationId = im_conversationId insertMessage,
                msg_content = im_content insertMessage,
                msg_sender = im_sender insertMessage,
                msg_confidence = orNull (im_confidence insertMessage),
                msg_responseTime = orNull (im_responseTime insertMessage),
                msg_templateId = orNull (im_templateId insertMessage),
                sentAt = t \<rparr>
      in (m, s\<lparr>mem_messages := (mem_messages s)(ident \<mapsto> m), currentId := ident + 1\<rparr>))"
section \<open>The channel adapters\<close>

record httpResponse =
  status :: nat
  body :: string

text \<open>\<^verbatim>\<open>value || alternative\<close> on a string: undefined and the empty string give the alternative.\<close>

definition orElse :: "string option \<Rightarrow> string \<Rightarrow> string" where
  "orElse v alternative = (case v of None \<Rightarrow> alternative | Some s \<Rightarrow> if s = [] then alternative else s)"





subsection \<open>Telegram (platforms/telegram.ts)\<close>

text \<open>
  A Telegram update as the handler reads it. The id of a user is an integer of at most
  52 significant bits, as the Bot API documents it; the id of a chat is an integer.
\<close>

record telegramUser =
  user_id :: "52 word"
  first_name :: "string option"
  last_name :: "string option"

record telegramChat =
  chat_id :: int

record telegramMessage =
  tg_from :: "telegramUser option"
  tg_chat :: "telegramChat option"
  tg_text :: "string option"

record telegramUpdate =
  upd_message :: "telegramMessage option"

text \<open>\<^verbatim>\<open>n.toString()\<close> on a user id: its decimal digits.\<close>

function natToString :: "nat \<Rightarrow> string" where
  "natToString n =
     (if n < 10 then [''0123456789'' ! n]
      else natToString (n div 10) @ [''0123456789'' ! (n mod 10)])"
  by pat_completeness auto
termination
  by (relation "measure id") auto

definition numberToString :: "52 word \<Rightarrow> string" where
  "numberToString i = natToString (unat i)"

definition sendMessage :: "string \<Rightarrow> int \<Rightarrow> string \<Rightarrow> unit io" where
  "sendMessage botToken chatId message =
     (if botToken = [] then consoleWrite ''warn: Telegram bot token not configured''
      else tryCatch
             (io_bind
                (fetch (''https://api.telegram.org/bot'' @ botToken @ ''/sendMessage'')
                   [(''Content-Type'', ''application/json'')]
                   [(''chat_id'', JNumber (of_int chatId)), (''text'', JString message)])
                (\<lambda>(ok, statusText).
                   if \<not> ok then io_throw (Error (''Telegram API error: '' @ statusText))
                   else io_return ()))
             (\<lambda>error.
                io_bind
                  (createLog \<lparr> il_level = ''error'',
                               il_message = ''Failed to send Telegram message'',
                               il_details = Some [(''error'', JString (errorMessage error)),
                                                  (''chatId'', JNumber (of_int chatId))],
                               il_source = ''telegram'' \<rparr>)
                  (\<lambda>_. io_return ())))"

text \<open>
  The body of the \<open>try\<close> block of \<open>processIncomingMessage\<close>, in two parts. \<open>recordTurn\<close>
  is its straight-line second half, from "Store incoming message" to the closing log
  entry; \<open>processSteps\<close> is the whole body: it resolves the platform and the
  conversation and goes on with \<open>recordTurn\<close>. Reading \<open>message.from.id\<close> or
  \<open>message.chat.id\<close> of a message without that part throws a \<open>TypeError\<close>, at the place
  where the source first evaluates it.
\<close>

definition recordTurn ::
  "string \<Rightarrow> telegramMessage \<Rightarrow> int \<Rightarrow> platform \<Rightarrow> telegramUser \<Rightarrow> conversation \<Rightarrow> unit io" where
  "recordTurn botToken message startTime platform sender conversation =
     io_bind (createMessage \<lparr> im_conversationId = conv_id conversation,
                              im_content = orElse (tg_text message) ''[Media]'',
                              im_sender = ''user'', im_confidence = None,
                              im_responseTime = None, im_templateId = None \<rparr>) (\<lambda>_.
     io_bind (simpleGenerateResponse (orElse (tg_text message) []) (plat_id platform)) (\<lambda>generated.
     io_bind dateNow (\<lambda>endTime.
     io_bind (createMessage \<lparr> im_conversationId = conv_id conversation,
                              im_content = sr_response generated,
                              im_sender = ''bot'', im_confidence = Some (sr_confidence generated),
                              im_responseTime = Some (endTime - startTime),
                              im_templateId = None \<rparr>) (\<lambda>_.
     case tg_chat message of
       None \<Rightarrow> io_throw (cannotRead ''id'')
     | Some chat \<Rightarrow>
     io_bind (sendMessage botToken (chat_id chat) (sr_response generated)) (\<lambda>_.
     io_bind dateNow (\<lambda>t1.
     io_bind (updatePlatform (plat_id platform)
                (\<lambda>r. r\<lparr>plat_messagesCount := plat_messagesCount platform + 1,
                       plat_lastMessageAt := Some t1\<rparr>)) (\<lambda>_.
     io_bind dateNow (\<lambda>t2.
     io_bind (updateConversation (conv_id conversation)
                (\<lambda>r. r\<lparr>conv_messagesCount := conv_messagesCount conversation + 2,
                       conv_lastMessageAt := Some t2\<rparr>)) (\<lambda>_.
     io_bind (createLog \<lparr> il_level = ''info'',
                          il_message = ''Telegram message processed successfully'',
                          il_details = Some [(''userId'', JNumber (of_nat (unat (user_id sender)))),
                                             (''confidence'', JNumber (sr_confidence generated)),
                                             (''responseTime'', JNumber (of_int (endTime - startTime))),
                                             (''chatId'', JNumber (of_int (chat_id chat)))],
                          il_source = ''telegram'' \<rparr>) (\<lambda>_.
     io_return ()))))))))))"

definition processSteps :: "string \<Rightarrow> telegramMessage \<Rightarrow> int \<Rightarrow> unit io" where
  "processSteps botToken message startTime =
     io_bind (getPlatformByName ''telegram'') (\<lambda>found.
     io_bind (case found of
                Some p \<Rightarrow> io_return p
              | None \<Rightarrow> createPlatform \<lparr> ip_name = ''telegram'', ip_status = ''active'',
                                         ip_apiKey = Some botToken, ip_webhookUrl = None,
                                         ip_config = Some [] \<rparr>) (\<lambda>platform.
     io_bind getAllConversations (\<lambda>convs.
     case tg_from message of
       None \<Rightarrow> io_throw (cannotRead ''id'')
     | Some sender \<Rightarrow>
     io_bind (case find (\<lambda>c. conv_platformId c = plat_id platform
                              \<and> conv_userId c = numberToString (user_id sender)) convs of
                Some c \<Rightarrow> io_return c
              | None \<Rightarrow>
                  createConversation
                    \<lparr> ic_platformId = plat_id platform,
                      ic_userId = numberToString (user_id sender),
                      ic_userName =
                        Some (trim ((case first_name sender of None \<Rightarrow> ''undefined'' | Some f \<Rightarrow> f)
                                    @ '' '' @ orElse (last_name sender) [])),
                      ic_status = ''active'' \<rparr>)
       (recordTurn botToken message startTime platform sender))))"

definition processIncomingMessage :: "string \<Rightarrow> telegramMessage \<Rightarrow> unit io" where
  "processIncomingMessage botToken message =
     io_bind dateNow (\<lambda>startTime.
       tryCatch (processSteps botToken message startTime)
         (\<lambda>error.
            io_bind
              (createLog \<lparr> il_level = ''error'',
                           il_message = ''Failed to process Telegram message'',
                           il_details = Some [(''error'', JString (errorMessage error))],
                           il_source = ''telegram'' \<rparr>)
              (\<lambda>_. io_return ())))"

text \<open>
  The webhook handler. \<open>reqBody\<close> is \<open>req.body\<close>, \<open>None\<close> when the request has none. The
  result is the response sent; an exception as result means that the handler's promise
  rejects and no response is sent. A delivery runs on its own here: the storage calls of
  other deliveries are not interleaved with its own.
\<close>

definition handleMessage :: "string \<Rightarrow> telegramUpdate option \<Rightarrow> httpResponse io" where
  "handleMessage botToken reqBody =
     tryCatch
       (case reqBody of
          None \<Rightarrow> io_throw (cannotRead ''message'')
        | Some update \<Rightarrow>
            io_bind (case upd_message update of
                       Some message \<Rightarrow> processIncomingMessage botToken message
                     | None \<Rightarrow> io_return ())
              (\<lambda>_. io_return \<lparr> status = 200, body = ''OK'' \<rparr>))
       (\<lambda>error.
          io_bind (consoleWrite (''error: Telegram webhook error: '' @ errorMessage error)) (\<lambda>_.
          io_bind
            (createLog \<lparr> il_level = ''error'',
                         il_message = ''Telegram webhook processing failed'',
                         il_details = Some [(''error'', JString (errorMessage error))],
                         il_source = ''telegram'' \<rparr>) (\<lambda>_.
          io_return \<lparr> status = 500, body = ''Internal Server Error'' \<rparr>)))"

subsection \<open>WhatsApp (platforms/whatsapp.ts)\<close>










subsection \<open>Messenger (platforms/messenger.ts)\<close>











section \<open>The live fan-out channel (websocket.ts)\<close>





subsection \<open>Arithmetic on JavaScript numbers\<close>











section \<open>Sequences of turns and observations of the store\<close>

text \<open>Sequential turns of the response selector: each runs to its end before the next starts.\<close>

fun runTurns :: "(string \<times> int) list \<Rightarrow> env \<Rightarrow> world \<Rightarrow> (exn + response) list \<times> world" where
  "runTurns [] e w = ([], w)"
| "runTurns ((message, platformId) # rest) e w =
     (case generateResponse message platformId e w of
        (r, w1) \<Rightarrow> (case runTurns rest e w1 of (rs, w2) \<Rightarrow> (r # rs, w2)))"

text \<open>The turns of other requests, as what happens while one turn waits for its update.\<close>

definition otherTurns :: "(string \<times> int) list \<Rightarrow> unit io" where
  "otherTurns turns e w = (Inr (), snd (runTurns turns e w))"

definition usageCountOf :: "int \<Rightarrow> world \<Rightarrow> int option" where
  "usageCountOf ident w =
     map_option usageCount (find (\<lambda>t. tpl_id t = ident) (rows (templates (db w))))"

text \<open>A turn that resolved to the template with the given id.\<close>

fun resolvedTo :: "int \<Rightarrow> exn + response \<Rightarrow> bool" where
  "resolvedTo ident (Inr r) = (templateId r = Some ident)"
| "resolvedTo ident (Inl x) = False"







section \<open>Example data\<close>

definition defaultBotConfig :: botConfig where
  "defaultBotConfig =
     \<lparr> cfg_id = 1, cfg_name = ''LuvSmithCorp Bot'', cfg_language = ''en'',
       cfg_tone = ''professional'', confidenceThreshold = 75, maxResponseTime = 3,
       fallbackMessage =
         ''Sorry, I didn'' @ [CHR 0x27] @ ''t understand that. Can you please rephrase?'',
       autoTraining = True, cfg_createdAt = 0, cfg_updatedAt = 0 \<rparr>"

definition welcomeTemplate :: template where
  "welcomeTemplate =
     \<lparr> tpl_id = 1, tpl_name = ''Welcome Message'', tpl_category = ''Greetings'',
       tpl_content = ''Hello! Welcome to LuvSmithCorp. How can I assist you today?'',
       tpl_variables = Some [], isActive = True, usageCount = 0,
       tpl_createdAt = 0, tpl_updatedAt = 0 \<rparr>"

definition emptyTable :: "'r table" where
  "emptyTable = \<lparr> rows = [], nextId = 1 \<rparr>"

definition exampleDatabase :: database where
  "exampleDatabase =
     \<lparr> botConfigs = \<lparr> rows = [defaultBotConfig], nextId = 2 \<rparr>,
       platforms = emptyTable, conversations = emptyTable, messages = emptyTable,
       templates = \<lparr> rows = [welcomeTemplate], nextId = 2 \<rparr>,
       mlModels = emptyTable, logs = emptyTable \<rparr>"

text \<open>An environment in which nothing fails and no other task runs.\<close>

definition quietEnv :: env where
  "quietEnv =
     \<lparr> fails = (\<lambda>op n. False), fetchResult = (\<lambda>n. HttpResponse True ''OK''),
       clock = (\<lambda>n. 1000 * int n), startOfDay = (\<lambda>t. t - t mod 86400000),
       interleaved = (\<lambda>n. []) \<rparr>"

definition noSockets :: webSocketManager where
  "noSockets = \<lparr> clients = [], isOpen = (\<lambda>ws. False), delivered = (\<lambda>ws. []) \<rparr>"

definition initialWorld :: "database \<Rightarrow> world" where
  "initialWorld d =
     \<lparr> db = d, console = [], requests = [], sockets = noSockets, calls = [], tick = 0,
       unhandled = [] \<rparr>"

definition orderTemplate :: template where
  "orderTemplate =
     \<lparr> tpl_id = 2, tpl_name = ''Order Support'', tpl_category = ''Customer Support'',
       tpl_content = ''Hi {name}, order {orderNumber}'',
       tpl_variables = Some [''name'', ''orderNumber''], isActive = True, usageCount = 0,
       tpl_createdAt = 0, tpl_updatedAt = 0 \<rparr>"

definition zeroReply :: insertMessage where
  "zeroReply =
     \<lparr> im_conversationId = 1, im_content = ''Hello! How can I help you today?'',
       im_sender = ''bot'', im_confidence = Some 0, im_responseTime = Some 0,
       im_templateId = None \<rparr>"

definition emptyMemStorage :: memStorage where
  "emptyMemStorage = \<lparr> mem_messages = Map.empty, currentId = 10 \<rparr>"

definition lenientConfig :: botConfig where
  "lenientConfig = defaultBotConfig\<lparr>confidenceThreshold := 0\<rparr>"

definition lenientDatabase :: database where
  "lenientDatabase = exampleDatabase\<lparr>botConfigs := \<lparr> rows = [lenientConfig], nextId = 2 \<rparr>\<rparr>"

definition retiredTemplate :: template where
  "retiredTemplate =
     \<lparr> tpl_id = 7, tpl_name = ''Old Greeting'', tpl_category = ''greeting'',
       tpl_content = ''Howdy!'', tpl_variables = Some [], isActive = False, usageCount = 3,
       tpl_createdAt = 0, tpl_updatedAt = 0 \<rparr>"

definition retiredDatabase :: database where
  "retiredDatabase =
     lenientDatabase\<lparr>templates := \<lparr> rows = [retiredTemplate, welcomeTemplate], nextId = 8 \<rparr>\<rparr>"

text \<open>
  A greeting template whose author named a variable \<open>toString\<close>, and a database that
  holds it.
\<close>

definition memberTemplate :: template where
  "memberTemplate =
     \<lparr> tpl_id = 3, tpl_name = ''Order Greeting'', tpl_category = ''greeting'',
       tpl_content = ''Hi {toString}, order {orderNumber}'',
       tpl_variables = Some [''toString'', ''orderNumber''], isActive = True, usageCount = 0,
       tpl_createdAt = 0, tpl_updatedAt = 0 \<rparr>"

definition memberDatabase :: database where
  "memberDatabase = lenientDatabase\<lparr>templates := \<lparr> rows = [memberTemplate], nextId = 4 \<rparr>\<rparr>"

text \<open>A database in which one template matches a greeting, and one does not.\<close>

definition counterDatabase :: database where
  "counterDatabase =
     lenientDatabase\<lparr>templates := \<lparr> rows = [retiredTemplate, orderTemplate], nextId = 8 \<rparr>\<rparr>"

definition helloMessage :: telegramMessage where
  "helloMessage =
     \<lparr> tg_from = Some \<lparr> user_id = 42, first_name = Some ''Sam'', last_name = None \<rparr>,
       tg_chat = Some \<lparr> chat_id = 42 \<rparr>,
       tg_text = Some ''hello there'' \<rparr>"

definition helloUpdate :: telegramUpdate where
  "helloUpdate = \<lparr> upd_message = Some helloMessage \<rparr>"






text \<open>An environment in which the first two storage calls fail and the later ones succeed.\<close>

definition outageEnv :: env where
  "outageEnv = quietEnv\<lparr>fails := (\<lambda>op n. n < 2)\<rparr>"

text \<open>An environment in which every storage call fails.\<close>

definition downEnv :: env where
  "downEnv = quietEnv\<lparr>fails := (\<lambda>op n. True)\<rparr>"

text \<open>An environment in which the read of the conversations fails, and nothing else.\<close>

definition conversationsDownEnv :: env where
  "conversationsDownEnv = quietEnv\<lparr>fails := (\<lambda>op n. op = GetAllConversations)\<rparr>"






section \<open>The classifier\<close>

lemmas string_defs = toLowerCase_def toLowerChar_def isUpperCase_def trim_def isWhiteSpace_def

lemma intent_hello_there: "intent (processMessage ''hello there'') = ''greeting''"
  by (simp add: processMessage_def classifyIntent_def string_defs)

lemma confidence_processMessage: "confidence (processMessage message) = 3 / 4"
  by (simp add: processMessage_def Let_def)

lemma entities_processMessage: "entities (processMessage message) = Map.empty"
  by (simp add: processMessage_def Let_def)

text \<open>
  C1. The specification: for the input "hello there" the classifier assigns intent
  greeting with confidence 75, and with a confidence threshold of 75 the response
  selection returns the greeting response, not the fallback message. On the code the
  intent is greeting,
  but the confidence is 0.75, which is below 75: the selector returns the configured
  fallback message, although a greeting template is stored.
\<close>

theorem C1_greeting_gets_fallback:
  "intent (processMessage ''hello there'') = ''greeting''
   \<and> confidence (processMessage ''hello there'') = 3 / 4
   \<and> confidenceThreshold defaultBotConfig = 75
   \<and> fst (generateResponse ''hello there'' 1 quietEnv (initialWorld exampleDatabase))
       = Inr \<lparr> response = fallbackMessage defaultBotConfig, res_confidence = 3 / 4,
               templateId = None \<rparr>"
  by (simp add: intent_hello_there confidence_processMessage generateResponse_def
        generateResponseAmid_def Let_def io_bind_def getBotConfig_def storageCall_def firstRow_def
        quietEnv_def initialWorld_def exampleDatabase_def io_return_def defaultBotConfig_def
        now_def)

section \<open>Substrings and storage calls\<close>

lemma startsWith_iff: "startsWith s p \<longleftrightarrow> (\<exists>q. s = p @ q)"
  by (induction s p rule: startsWith.induct) auto

lemma str_includes_iff: "str_includes s sub \<longleftrightarrow> (\<exists>p q. s = p @ sub @ q)"
proof (induction s)
  case Nil
  then show ?case by auto
next
  case (Cons c cs)
  show ?case
  proof
    assume "str_includes (c # cs) sub"
    then consider "startsWith (c # cs) sub" | "str_includes cs sub" by auto
    then show "\<exists>p q. c # cs = p @ sub @ q"
    proof cases
      case 1
      then obtain q where "c # cs = sub @ q" by (auto simp: startsWith_iff)
      then have "c # cs = [] @ sub @ q" by simp
      then show ?thesis by blast
    next
      case 2
      then obtain p q where "cs = p @ sub @ q" using Cons.IH by blast
      then have "c # cs = (c # p) @ sub @ q" by simp
      then show ?thesis by blast
    qed
  next
    assume "\<exists>p q. c # cs = p @ sub @ q"
    then obtain p q where pq: "c # cs = p @ sub @ q" by blast
    show "str_includes (c # cs) sub"
    proof (cases p)
      case Nil
      with pq have "startsWith (c # cs) sub" by (auto simp: startsWith_iff)
      then show ?thesis by simp
    next
      case (Cons a p')
      with pq have "cs = p' @ sub @ q" by simp
      then have "str_includes cs sub" using Cons.IH by blast
      then show ?thesis by simp
    qed
  qed
qed

lemma storageCall_ok:
  "\<not> fails e op (tick w) \<Longrightarrow>
   storageCall op q e w =
     (case q (clock e (tick w + 1)) (db w) of
        (r, d) \<Rightarrow> (r, w\<lparr>db := d, calls := calls w @ [op], tick := tick w + 1\<rparr>))"
  by (simp add: storageCall_def Let_def now_def split: prod.splits)

lemma getBotConfig_ok:
  "\<not> fails e GetBotConfig (tick w) \<Longrightarrow> rows (botConfigs (db w)) = cfg # rest \<Longrightarrow>
   getBotConfig e w = (Inr (Some cfg), w\<lparr>calls := calls w @ [GetBotConfig], tick := tick w + 1\<rparr>)"
  by (simp add: getBotConfig_def storageCall_ok firstRow_def)

section \<open>The response selector\<close>

lemma generateResponse_below:
  assumes "\<not> fails e GetBotConfig (tick w)" and "rows (botConfigs (db w)) = cfg # rest"
    and "confidence (processMessage text) < of_int (confidenceThreshold cfg)"
  shows "generateResponse text pid e w =
           (Inr \<lparr> response = fallbackMessage cfg,
                  res_confidence = confidence (processMessage text), templateId = None \<rparr>,
            w\<lparr>calls := calls w @ [GetBotConfig], tick := tick w + 1\<rparr>)"
  using assms
  by (simp add: generateResponse_def generateResponseAmid_def Let_def io_bind_def
        getBotConfig_ok io_return_def)


lemma generateResponse_result:
  assumes "\<not> fails e GetBotConfig (tick w)" and "rows (botConfigs (db w)) = cfg # rest"
    and "\<not> confidence (processMessage text) < of_int (confidenceThreshold cfg)"
    and "fst (generateResponse text pid e w) = Inr r"
  shows "case find (templateMatches (intent (processMessage text))) (rows (templates (db w))) of
           Some t \<Rightarrow> r = \<lparr> response = applyTemplate t Map.empty,
                           res_confidence = 3 / 4, templateId = Some (tpl_id t) \<rparr>
         | None \<Rightarrow> r = \<lparr> response = (case intentResponses (intent (processMessage text)) of
                                          None \<Rightarrow> fallbackMessage cfg | Some canned \<Rightarrow> canned),
                           res_confidence = 3 / 4, templateId = None \<rparr>"
  using assms
  by (auto simp add: generateResponse_def generateResponseAmid_def io_bind_def getBotConfig_ok
        getAllTemplates_def updateTemplate_def storageCall_def Let_def io_return_def io_throw_def
        confidence_processMessage entities_processMessage applyTemplate_def checked_def
      split: option.splits if_splits prod.splits sum.splits list.splits)

lemma intent_xyzzy: "intent (processMessage ''xyzzy plugh'') = ''general_inquiry''"
  by (simp add: processMessage_def classifyIntent_def string_defs)

lemmas run_defs = generateResponse_def generateResponseAmid_def io_bind_def io_return_def
  io_throw_def getBotConfig_def getAllTemplates_def updateTemplate_def storageCall_def now_def
  firstRow_def updateRows_def checked_def checkInteger_def int4_def List.map_filter_simps Let_def
lemmas example_defs = quietEnv_def initialWorld_def exampleDatabase_def lenientDatabase_def
  lenientConfig_def defaultBotConfig_def welcomeTemplate_def

lemma templateMatches_iff:
  "templateMatches label t \<longleftrightarrow>
     (\<exists>p q. toLowerCase (tpl_category t) = p @ label @ q)
     \<or> (\<exists>p q. toLowerCase (tpl_name t) = p @ label @ q)"
  by (simp add: templateMatches_def str_includes_iff)

text \<open>
  C2, as the specification states it: the selector returns the fallback message if and
  only if the confidence is below the threshold. This fails: with threshold 0 the confidence
  0.75 is not below it, no template matches the intent general_inquiry and the intent
  has no canned response, so the fallback message is returned all the same.
\<close>

theorem C2_fallback_at_threshold_reached:
  "\<not> (map_sum id response
         (fst (generateResponse ''xyzzy plugh'' 1 quietEnv (initialWorld lenientDatabase)))
        = Inr (fallbackMessage lenientConfig)
       \<longleftrightarrow> confidence (processMessage ''xyzzy plugh'') < of_int (confidenceThreshold lenientConfig))"
  by (simp add: run_defs example_defs intent_xyzzy confidence_processMessage templateMatches_def
        string_defs intentResponses_def)

text \<open>
  C2, amended. For every bot configuration with threshold K and every input text with
  classified confidence C: if C < K, the selector returns exactly the configured
  fallback message, after one storage call, the read of the configuration (so no
  template lookup), and with the database unchanged (so no usage counter mutation). If
  C is not below K, the response is the fallback message exactly when the first matching
  template's text equals it or, no template matching, when the intent has no canned
  response or its canned response equals it.
\<close>

theorem C2_fallback_below_threshold:
  assumes "\<not> fails e GetBotConfig (tick w)" and "rows (botConfigs (db w)) = cfg # rest"
  shows "(confidence (processMessage text) < of_int (confidenceThreshold cfg) \<longrightarrow>
            generateResponse text pid e w =
              (Inr \<lparr> response = fallbackMessage cfg,
                     res_confidence = confidence (processMessage text), templateId = None \<rparr>,
               w\<lparr>calls := calls w @ [GetBotConfig], tick := tick w + 1\<rparr>))
         \<and> (\<not> confidence (processMessage text) < of_int (confidenceThreshold cfg) \<longrightarrow>
              (\<forall>r. fst (generateResponse text pid e w) = Inr r \<longrightarrow>
                 (response r = fallbackMessage cfg \<longleftrightarrow>
                    (case find (templateMatches (intent (processMessage text)))
                            (rows (templates (db w))) of
                       Some t \<Rightarrow> applyTemplate t Map.empty = fallbackMessage cfg
                     | None \<Rightarrow> intentResponses (intent (processMessage text))
                                \<in> {None, Some (fallbackMessage cfg)}))))"
proof (intro conjI impI allI)
  assume "confidence (processMessage text) < of_int (confidenceThreshold cfg)"
  then show "generateResponse text pid e w =
              (Inr \<lparr> response = fallbackMessage cfg,
                     res_confidence = confidence (processMessage text), templateId = None \<rparr>,
               w\<lparr>calls := calls w @ [GetBotConfig], tick := tick w + 1\<rparr>)"
    using assms by (rule generateResponse_below [rotated 2])
next
  fix r
  assume above: "\<not> confidence (processMessage text) < of_int (confidenceThreshold cfg)"
    and r: "fst (generateResponse text pid e w) = Inr r"
  from generateResponse_result [OF assms above r]
  show "response r = fallbackMessage cfg \<longleftrightarrow>
          (case find (templateMatches (intent (processMessage text))) (rows (templates (db w))) of
             Some t \<Rightarrow> applyTemplate t Map.empty = fallbackMessage cfg
           | None \<Rightarrow> intentResponses (intent (processMessage text))
                      \<in> {None, Some (fallbackMessage cfg)})"
    by (auto split: option.splits)
qed

theorem C2_fallback_below_threshold_witness:
  "\<not> fails quietEnv GetBotConfig (tick (initialWorld exampleDatabase))
   \<and> rows (botConfigs (db (initialWorld exampleDatabase))) = defaultBotConfig # []
   \<and> confidence (processMessage ''hello there'') < of_int (confidenceThreshold defaultBotConfig)
   \<and> calls (snd (generateResponse ''hello there'' 1 quietEnv (initialWorld exampleDatabase)))
       = [GetBotConfig]
   \<and> db (snd (generateResponse ''hello there'' 1 quietEnv (initialWorld exampleDatabase)))
       = exampleDatabase
   \<and> \<not> fails quietEnv GetBotConfig (tick (initialWorld lenientDatabase))
   \<and> rows (botConfigs (db (initialWorld lenientDatabase))) = lenientConfig # []
   \<and> \<not> confidence (processMessage ''hello there'') < of_int (confidenceThreshold lenientConfig)
   \<and> fst (generateResponse ''hello there'' 1 quietEnv (initialWorld lenientDatabase))
       = Inr \<lparr> response = ''Hello! Welcome to LuvSmithCorp. How can I assist you today?'',
               res_confidence = 3 / 4, templateId = Some 1 \<rparr>
   \<and> (case find (templateMatches (intent (processMessage ''hello there'')))
               (rows (templates (db (initialWorld lenientDatabase)))) of
          Some t \<Rightarrow> applyTemplate t Map.empty = fallbackMessage lenientConfig
        | None \<Rightarrow> intentResponses (intent (processMessage ''hello there''))
                   \<in> {None, Some (fallbackMessage lenientConfig)})
       = False"
proof -
  let ?w = "initialWorld exampleDatabase"
  let ?v = "initialWorld lenientDatabase"
  let ?r = "\<lparr> response = ''Hello! Welcome to LuvSmithCorp. How can I assist you today?'',
             res_confidence = 3 / 4, templateId = Some 1 \<rparr>"
  have a: "\<not> fails quietEnv GetBotConfig (tick ?w)"
    by (simp add: quietEnv_def)
  have b: "rows (botConfigs (db ?w)) = defaultBotConfig # []"
    by (simp add: initialWorld_def exampleDatabase_def)
  have c: "confidence (processMessage ''hello there'') < of_int (confidenceThreshold defaultBotConfig)"
    by (simp add: confidence_processMessage defaultBotConfig_def)
  have a': "\<not> fails quietEnv GetBotConfig (tick ?v)"
    by (simp add: quietEnv_def)
  have b': "rows (botConfigs (db ?v)) = lenientConfig # []"
    by (simp add: initialWorld_def exampleDatabase_def lenientDatabase_def)
  have c': "\<not> confidence (processMessage ''hello there'') < of_int (confidenceThreshold lenientConfig)"
    by (simp add: confidence_processMessage lenientConfig_def defaultBotConfig_def)
  have d: "fst (generateResponse ''hello there'' 1 quietEnv ?v) = Inr ?r"
    by (simp add: run_defs example_defs intent_hello_there confidence_processMessage
          templateMatches_def string_defs renderTemplate_def entities_processMessage)
  have differs: "response ?r \<noteq> fallbackMessage lenientConfig"
    by (simp add: lenientConfig_def defaultBotConfig_def)
  from C2_fallback_below_threshold [OF a b, of "''hello there''" 1] c
  have "generateResponse ''hello there'' 1 quietEnv ?w =
              (Inr \<lparr> response = fallbackMessage defaultBotConfig,
                     res_confidence = confidence (processMessage ''hello there''), templateId = None \<rparr>,
               ?w\<lparr>calls := calls ?w @ [GetBotConfig], tick := tick ?w + 1\<rparr>)"
    by blast
  then have below: "calls (snd (generateResponse ''hello there'' 1 quietEnv ?w)) = [GetBotConfig]"
    "db (snd (generateResponse ''hello there'' 1 quietEnv ?w)) = exampleDatabase"
    by (simp_all add: initialWorld_def)
  from C2_fallback_below_threshold [OF a' b', of "''hello there''" 1] c' d
  have "response ?r = fallbackMessage lenientConfig \<longleftrightarrow>
          (case find (templateMatches (intent (processMessage ''hello there'')))
                  (rows (templates (db ?v))) of
             Some t \<Rightarrow> applyTemplate t Map.empty = fallbackMessage lenientConfig
           | None \<Rightarrow> intentResponses (intent (processMessage ''hello there''))
                      \<in> {None, Some (fallbackMessage lenientConfig)})"
    by blast
  with differs have above:
    "(case find (templateMatches (intent (processMessage ''hello there'')))
              (rows (templates (db ?v))) of
         Some t \<Rightarrow> applyTemplate t Map.empty = fallbackMessage lenientConfig
       | None \<Rightarrow> intentResponses (intent (processMessage ''hello there''))
                  \<in> {None, Some (fallbackMessage lenientConfig)})
     = False"
    by blast
  show ?thesis
    by (intro conjI a b c below a' b' c' d above)
qed

section \<open>Template substitution\<close>

text \<open>
  C4. The specification: the substitution step leaves the placeholder of a variable
  without an entity value as it is. On the code the value of a variable is looked up in a
  plain object, which finds the members that every object inherits: for the input
  "hello there" no entity is extracted, yet for a stored template that declares the
  variable toString the placeholder is replaced, by the text that the inherited function
  returns.
\<close>

theorem C4_inherited_member_substituted:
  "entities (processMessage ''hello there'') = Map.empty
   \<and> tpl_content memberTemplate = ''Hi {toString}, order {orderNumber}''
   \<and> fst (generateResponse ''hello there'' 1 quietEnv (initialWorld memberDatabase))
       = Inr \<lparr> response = ''Hi [object Undefined], order {orderNumber}'',
               res_confidence = 3 / 4, templateId = Some 3 \<rparr>"
  by (simp add: run_defs example_defs memberDatabase_def memberTemplate_def intent_hello_there
        confidence_processMessage entities_processMessage templateMatches_def string_defs
        renderTemplate_def getProperty_def prototypeFunctions_def replaceValue_def
        callMember_def)

text \<open>
  With an entity value of its own, a variable is substituted at its first occurrence
  only; the processor extracts no entities, so that no run of the selector gets there.
\<close>

lemma first_occurrence_only:
  "renderTemplate (orderTemplate\<lparr>tpl_content := ''Hi {name}. Bye {name}''\<rparr>) [''name'' \<mapsto> ''Sam'']
     = Inr ''Hi Sam. Bye {name}''"
  by (simp add: renderTemplate_def orderTemplate_def getProperty_def replaceValue_def
        replace_def)

section \<open>Inactive templates\<close>

text \<open>
  C5. The specification: only active templates are searched, and an inactive template
  is never selected. On the code a stored template whose active flag is off and whose
  category is "greeting" is selected for "hello there": the selector does not read the
  flag.
\<close>

theorem C5_inactive_template_selected:
  "isActive retiredTemplate = False
   \<and> fst (generateResponse ''hello there'' 1 quietEnv (initialWorld retiredDatabase))
       = Inr \<lparr> response = ''Howdy!'', res_confidence = 3 / 4,
               templateId = Some (tpl_id retiredTemplate) \<rparr>"
  by (simp add: run_defs example_defs retiredDatabase_def retiredTemplate_def intent_hello_there
        confidence_processMessage templateMatches_def string_defs renderTemplate_def
        entities_processMessage)

section \<open>A failed outbound send\<close>

lemma floor_three_quarters: "\<lfloor>3 / 4 :: rat\<rfloor> = 0"
  by (simp add: floor_eq_iff)

lemma checkInteger_fraction:
  "checkInteger (3 / 4) = Some (Error ''invalid input syntax for type integer'')"
  unfolding checkInteger_def floor_three_quarters by simp

lemma checkInteger_of_int:
  "int4 i \<Longrightarrow> checkInteger (of_int i) = None"
proof -
  assume "int4 i"
  then have "\<bar>i\<bar> < 1000000000000000000000" unfolding int4_def by linarith
  then have "rat_of_int \<bar>i\<bar> < rat_of_int 1000000000000000000000"
    by (simp only: of_int_less_iff)
  then have "\<not> 10 ^ 21 \<le> \<bar>rat_of_int i\<bar>" by simp
  with \<open>int4 i\<close> show ?thesis by (simp add: checkInteger_def)
qed

lemma checkInteger_numeral:
  "int4 (numeral n) \<Longrightarrow> checkInteger (numeral n) = None"
  "checkInteger 0 = None" "checkInteger 1 = None"
  using checkInteger_of_int [of "numeral n"] checkInteger_of_int [of 0] checkInteger_of_int [of 1]
  by (simp_all add: int4_def)

lemmas pipeline_defs = handleMessage_def processIncomingMessage_def processSteps_def recordTurn_def
  sendMessage_def tryCatch_def io_bind_def io_return_def io_throw_def dateNow_def now_def
  storageCall_def consoleWrite_def fetch_def getPlatformByName_def createPlatform_def
  updatePlatform_def getAllConversations_def createConversation_def updateConversation_def
  createMessage_def createLog_def simpleGenerateResponse_def checked_def checkInteger_fraction
  checkInteger_of_int checkInteger_numeral
  int4_def supplied_def List.map_filter_simps numberToString_def orElse_def cannotRead_def
  confidence_processMessage Let_def

lemmas pipeline_example_defs = quietEnv_def initialWorld_def exampleDatabase_def
  emptyTable_def helloMessage_def helloUpdate_def outageEnv_def downEnv_def
  conversationsDownEnv_def noSockets_def

text \<open>
  C7. The specification: when the outbound send fails, the user message and the bot
  message are persisted all the same and the counters move. On the code no run of the
  pipeline gets as far as the send: the bot message is written with the confidence
  0.75, which the integer column of the store rejects. With the bot token missing, and
  just so with a token, the run of "hello there" stores the user message alone, leaves
  the counters of the new platform and conversation at 0, makes no request and writes
  nothing on the console; its one log entry is the error entry of the failed processing.
\<close>

theorem C7_bot_message_rejected:
  "map (\<lambda>m. (msg_sender m, msg_content m))
      (rows (messages (db (snd (processIncomingMessage [] helloMessage quietEnv
                                  (initialWorld exampleDatabase))))))
     = [(''user'', ''hello there'')]
   \<and> map (\<lambda>p. (plat_name p, plat_messagesCount p))
        (rows (platforms (db (snd (processIncomingMessage [] helloMessage quietEnv
                                     (initialWorld exampleDatabase))))))
     = [(''telegram'', 0)]
   \<and> map (\<lambda>c. (conv_userId c, conv_messagesCount c))
        (rows (conversations (db (snd (processIncomingMessage [] helloMessage quietEnv
                                         (initialWorld exampleDatabase))))))
     = [(''42'', 0)]
   \<and> map (\<lambda>l. (log_level l, log_message l, log_details l))
        (rows (logs (db (snd (processIncomingMessage [] helloMessage quietEnv
                                (initialWorld exampleDatabase))))))
     = [(''error'', ''Failed to process Telegram message'',
         Some [(''error'', JString ''invalid input syntax for type integer'')])]
   \<and> console (snd (processIncomingMessage [] helloMessage quietEnv (initialWorld exampleDatabase)))
     = []
   \<and> requests (snd (processIncomingMessage [] helloMessage quietEnv (initialWorld exampleDatabase)))
     = []
   \<and> calls (snd (processIncomingMessage [] helloMessage quietEnv (initialWorld exampleDatabase)))
     = [GetPlatformByName, CreatePlatform, GetAllConversations, CreateConversation,
        CreateMessage, CreateMessage, CreateLog]
   \<and> map (\<lambda>m. (msg_sender m, msg_content m))
        (rows (messages (db (snd (processIncomingMessage ''token'' helloMessage quietEnv
                                    (initialWorld exampleDatabase))))))
     = [(''user'', ''hello there'')]
   \<and> requests (snd (processIncomingMessage ''token'' helloMessage quietEnv
                       (initialWorld exampleDatabase)))
     = []"
  by (simp add: pipeline_defs pipeline_example_defs)

text \<open>
  The second half of the processing never gets as far as the send, whatever the token,
  the message, the records and the environment: it raises at one of its two inserts,
  having made no request, written nothing on the console, stored no bot message and
  left the platforms and the conversations as they were.
\<close>

lemma recordTurn_raises:
  "isl (fst (recordTurn botToken message startTime platform sender conversation e w))"
  "requests (snd (recordTurn botToken message startTime platform sender conversation e w))
     = requests w"
  "console (snd (recordTurn botToken message startTime platform sender conversation e w))
     = console w"
  "platforms (db (snd (recordTurn botToken message startTime platform sender conversation e w)))
     = platforms (db w)"
  "conversations (db (snd (recordTurn botToken message startTime platform sender conversation e w)))
     = conversations (db w)"
  "filter (\<lambda>m. msg_sender m = ''bot'')
     (rows (messages (db (snd (recordTurn botToken message startTime platform sender
                                 conversation e w)))))
     = filter (\<lambda>m. msg_sender m = ''bot'') (rows (messages (db w)))"
  unfolding recordTurn_def
  by (auto simp add: io_bind_def io_return_def createMessage_def storageCall_def
        simpleGenerateResponse_def dateNow_def checked_def supplied_def Let_def
        confidence_processMessage List.map_filter_simps checkInteger_fraction
      split: prod.splits sum.splits list.splits option.splits)

text \<open>
  So does the whole processing of a Telegram message: it always raises, no request is
  made, no bot message is stored, and a platform or conversation it leaves behind is one
  that was there before, its counter unchanged, or one it created, its counter 0.
\<close>

lemma processSteps_reaches:
  "(isl (fst (processSteps botToken message startTime e w))
      \<and> requests (snd (processSteps botToken message startTime e w)) = requests w
      \<and> console (snd (processSteps botToken message startTime e w)) = console w
      \<and> messages (db (snd (processSteps botToken message startTime e w))) = messages (db w)
      \<and> (\<exists>created. rows (platforms (db (snd (processSteps botToken message startTime e w))))
               = rows (platforms (db w)) @ created
             \<and> list_all (\<lambda>p. plat_messagesCount p = 0) created)
      \<and> (\<exists>created. rows (conversations (db (snd (processSteps botToken message startTime e w))))
               = rows (conversations (db w)) @ created
             \<and> list_all (\<lambda>c. conv_messagesCount c = 0) created))
   \<or> (\<exists>platform sender conversation w3.
         processSteps botToken message startTime e w
           = recordTurn botToken message startTime platform sender conversation e w3
         \<and> requests w3 = requests w \<and> console w3 = console w
         \<and> messages (db w3) = messages (db w)
         \<and> (\<exists>created. rows (platforms (db w3)) = rows (platforms (db w)) @ created
                \<and> list_all (\<lambda>p. plat_messagesCount p = 0) created)
         \<and> (\<exists>created. rows (conversations (db w3)) = rows (conversations (db w)) @ created
                \<and> list_all (\<lambda>c. conv_messagesCount c = 0) created))"
proof -
  let ?create = "createPlatform \<lparr> ip_name = ''telegram'', ip_status = ''active'',
                                   ip_apiKey = Some botToken, ip_webhookUrl = None,
                                   ip_config = Some [] \<rparr>"
  let ?resolve = "io_bind (getPlatformByName ''telegram'')
                    (\<lambda>found. case found of Some p \<Rightarrow> io_return p | None \<Rightarrow> ?create)"
  obtain r1 w1 where r1: "?resolve e w = (r1, w1)" by (cases "?resolve e w")
  then have same1: "requests w1 = requests w" "console w1 = console w"
    "messages (db w1) = messages (db w)" "conversations (db w1) = conversations (db w)"
    and plats1: "\<exists>created. rows (platforms (db w1)) = rows (platforms (db w)) @ created
                  \<and> list_all (\<lambda>p. plat_messagesCount p = 0) created"
    by (auto simp add: io_bind_def io_return_def storageCall_def getPlatformByName_def
          createPlatform_def Let_def split: if_splits option.splits)
  show ?thesis
  proof (cases r1)
    case (Inl x)
    with r1 have "processSteps botToken message startTime e w = (Inl x, w1)"
      by (auto simp add: processSteps_def io_bind_def split: prod.splits sum.splits)
    with same1 plats1 show ?thesis by auto
  next
    case (Inr platform)
    obtain r2 w2 where r2: "getAllConversations e w1 = (r2, w2)"
      by (cases "getAllConversations e w1")
    then have same2: "requests w2 = requests w1" "console w2 = console w1" "db w2 = db w1"
      by (auto simp add: storageCall_def getAllConversations_def Let_def split: if_splits)
    show ?thesis
    proof (cases r2)
      case (Inl x)
      with r1 r2 Inr have "processSteps botToken message startTime e w = (Inl x, w2)"
        by (auto simp add: processSteps_def io_bind_def split: prod.splits sum.splits)
      with same1 same2 plats1 show ?thesis by auto
    next
      case convs: (Inr convs)
      show ?thesis
      proof (cases "tg_from message")
        case None
        with r1 r2 Inr convs
        have "processSteps botToken message startTime e w = (Inl (cannotRead ''id''), w2)"
          by (auto simp add: processSteps_def io_bind_def io_throw_def
              split: prod.splits sum.splits)
        with same1 same2 plats1 show ?thesis by auto
      next
        case (Some sender)
        let ?found = "case find (\<lambda>c. conv_platformId c = plat_id platform
                                       \<and> conv_userId c = numberToString (user_id sender)) convs of
                        Some c \<Rightarrow> io_return c
                      | None \<Rightarrow>
                          createConversation
                            \<lparr> ic_platformId = plat_id platform,
                              ic_userId = numberToString (user_id sender),
                              ic_userName =
                                Some (trim ((case first_name sender of None \<Rightarrow> ''undefined''
                                                                      | Some f \<Rightarrow> f)
                                            @ '' '' @ orElse (last_name sender) [])),
                              ic_status = ''active'' \<rparr>"
        obtain r3 w3 where r3: "?found e w2 = (r3, w3)" by (cases "?found e w2")
        then have same3: "requests w3 = requests w2" "console w3 = console w2"
          "messages (db w3) = messages (db w2)" "platforms (db w3) = platforms (db w2)"
          and convs3: "\<exists>created. rows (conversations (db w3)) = rows (conversations (db w2)) @ created
                        \<and> list_all (\<lambda>c. conv_messagesCount c = 0) created"
          by (auto simp add: io_return_def storageCall_def createConversation_def checked_def
                Let_def split: if_splits option.splits list.splits)
        have steps: "processSteps botToken message startTime e w
                       = io_bind ?found (recordTurn botToken message startTime platform sender) e w2"
          using r1 r2 Inr convs Some
          by (auto simp add: processSteps_def io_bind_def split: prod.splits sum.splits)
        show ?thesis
        proof (cases r3)
          case (Inl x)
          with steps r3 have "processSteps botToken message startTime e w = (Inl x, w3)"
            by (simp add: io_bind_def)
          with same1 same2 same3 plats1 convs3 show ?thesis by auto
        next
          case conv: (Inr conversation)
          with steps r3
          have "processSteps botToken message startTime e w
                  = recordTurn botToken message startTime platform sender conversation e w3"
            by (simp add: io_bind_def)
          with same1 same2 same3 plats1 convs3 show ?thesis
            by (intro disjI2 exI [of _ platform] exI [of _ sender] exI [of _ conversation]
                  exI [of _ w3]) simp
        qed
      qed
    qed
  qed
qed

lemma processSteps_raises:
  "isl (fst (processSteps botToken message startTime e w))"
  "requests (snd (processSteps botToken message startTime e w)) = requests w"
  "console (snd (processSteps botToken message startTime e w)) = console w"
  "filter (\<lambda>m. msg_sender m = ''bot'')
     (rows (messages (db (snd (processSteps botToken message startTime e w)))))
     = filter (\<lambda>m. msg_sender m = ''bot'') (rows (messages (db w)))"
  "\<exists>created. rows (platforms (db (snd (processSteps botToken message startTime e w))))
               = rows (platforms (db w)) @ created
             \<and> list_all (\<lambda>p. plat_messagesCount p = 0) created"
  "\<exists>created. rows (conversations (db (snd (processSteps botToken message startTime e w))))
               = rows (conversations (db w)) @ created
             \<and> list_all (\<lambda>c. conv_messagesCount c = 0) created"
  using processSteps_reaches [of botToken message startTime e w]
  by (auto simp add: recordTurn_raises)

section \<open>The response generator of the channel adapters\<close>

text \<open>
  C9. For every input text and platform id, the response generator that the channel
  adapters call leaves the world as it is (no record changes, no storage method is
  called: no bot configuration read, no template lookup, no usage counter update) and
  returns one of seven fixed strings, which is a function of the classified intent
  alone.
\<close>

theorem C9_simple_generator_frame:
  "snd (simpleGenerateResponse message platformId e w) = w
   \<and> (\<exists>r. fst (simpleGenerateResponse message platformId e w) = Inr r
          \<and> sr_intent r = intent (processMessage message)
          \<and> sr_response r = simpleResponseFor (sr_intent r)
          \<and> sr_response r \<in> set
              [''Hello! How can I help you today?'',
               ''I'' @ [CHR 0x27] @ ''m here to help! What do you need assistance with?'',
               ''You'' @ [CHR 0x27] @ ''re welcome! Is there anything else I can help you with?'',
               ''Goodbye! Have a great day!'',
               ''I can help you with pricing information. What specific product or service are you interested in?'',
               ''I can provide delivery information. Could you please share your order details?'',
               ''Thank you for your message. How can I assist you today?''])"
  by (simp add: simpleGenerateResponse_def io_return_def Let_def simpleResponseFor_def)

theorem C9_simple_generator_frame_witness:
  "snd (simpleGenerateResponse ''hello there'' 1 quietEnv (initialWorld exampleDatabase))
     = initialWorld exampleDatabase
   \<and> map_sum id sr_response
        (fst (simpleGenerateResponse ''hello there'' 1 quietEnv (initialWorld exampleDatabase)))
     = Inr ''Hello! How can I help you today?''"
  using C9_simple_generator_frame [of "''hello there''" 1 quietEnv "initialWorld exampleDatabase"]
  by (auto simp add: intent_hello_there simpleResponseFor_def)

section \<open>The in-memory store\<close>

text \<open>
  C10. For every \<open>createMessage\<close> call on the in-memory store in which the supplied
  confidence is 0, the stored message has null as confidence, and the call stores
  exactly what it stores when the confidence supplied is null; the same holds for a
  response time of 0. The message returned is the one stored under the new id.
\<close>

theorem C10_zero_stored_as_null:
  "(im_confidence im = Some 0 \<longrightarrow>
      msg_confidence (fst (MemStorage_createMessage im t s)) = None
      \<and> MemStorage_createMessage im t s = MemStorage_createMessage (im\<lparr>im_confidence := None\<rparr>) t s)
   \<and> (im_responseTime im = Some 0 \<longrightarrow>
      msg_responseTime (fst (MemStorage_createMessage im t s)) = None
      \<and> MemStorage_createMessage im t s = MemStorage_createMessage (im\<lparr>im_responseTime := None\<rparr>) t s)
   \<and> mem_messages (snd (MemStorage_createMessage im t s)) (currentId s)
       = Some (fst (MemStorage_createMessage im t s))"
  by (simp add: MemStorage_createMessage_def Let_def orNull_def)

theorem C10_zero_stored_as_null_witness:
  "im_confidence zeroReply = Some 0 \<and> im_responseTime zeroReply = Some 0
   \<and> msg_confidence (fst (MemStorage_createMessage zeroReply 5 emptyMemStorage)) = None
   \<and> msg_responseTime (fst (MemStorage_createMessage zeroReply 5 emptyMemStorage)) = None
   \<and> map_option msg_sender
        (mem_messages (snd (MemStorage_createMessage zeroReply 5 emptyMemStorage)) 10)
       = Some ''bot''"
  using C10_zero_stored_as_null [of zeroReply 5 emptyMemStorage]
  by (simp add: zeroReply_def emptyMemStorage_def MemStorage_createMessage_def Let_def)

section \<open>The usage counter\<close>

text \<open>
  What a turn does to the templates: nothing, and then it did not resolve to a template;
  or it wrote the usage counter of the matching template \<open>mt\<close>, whose new version
  follows the other rows.
\<close>

lemma generateResponse_templates:
  "rows (templates (db (snd (generateResponse text pid e w)))) = rows (templates (db w))
     \<and> (\<forall>i. \<not> resolvedTo i (fst (generateResponse text pid e w)))
   \<or> (\<exists>mt t. mt \<in> set (rows (templates (db w)))
         \<and> rows (templates (db (snd (generateResponse text pid e w))))
             = filter (\<lambda>r. tpl_id r \<noteq> tpl_id mt) (rows (templates (db w)))
               @ map (\<lambda>r. r\<lparr>usageCount := usageCount mt + 1, tpl_updatedAt := t\<rparr>)
                   (filter (\<lambda>r. tpl_id r = tpl_id mt) (rows (templates (db w))))
         \<and> (\<forall>i. resolvedTo i (fst (generateResponse text pid e w)) \<longrightarrow> i = tpl_id mt))"
proof (cases "find (templateMatches (intent (processMessage text))) (rows (templates (db w)))")
  case None
  then show ?thesis
    by (auto simp add: generateResponse_def generateResponseAmid_def io_bind_def io_return_def
        io_throw_def getBotConfig_def getAllTemplates_def storageCall_def Let_def
        split: option.splits list.splits if_splits)
next
  case (Some mt)
  then have "mt \<in> set (rows (templates (db w)))"
    by (auto simp add: find_Some_iff)
  with Some show ?thesis
    apply (simp add: generateResponse_def generateResponseAmid_def io_bind_def io_return_def
        io_throw_def getBotConfig_def getAllTemplates_def updateTemplate_def storageCall_def
        updateRows_def checked_def Let_def
        split: option.splits list.splits if_splits sum.splits)
    apply (intro conjI impI allI)
    apply auto
    done
qed

lemma find_append:
  "find P (xs @ ys) = (case find P xs of Some x \<Rightarrow> Some x | None \<Rightarrow> find P ys)"
  by (induction xs) auto

lemma find_filter_out: "find P (filter (\<lambda>r. \<not> P r) xs) = None"
  by (induction xs) auto

lemma find_filter_keeping: "(\<And>r. P r \<Longrightarrow> Q r) \<Longrightarrow> find P (filter Q xs) = find P xs"
  by (induction xs) auto

lemma find_id_updated:
  "mt \<in> set ts \<Longrightarrow>
   map_option usageCount
     (find (\<lambda>r. tpl_id r = tpl_id mt)
        (filter (\<lambda>r. tpl_id r \<noteq> tpl_id mt) ts
         @ map (\<lambda>r. r\<lparr>usageCount := c, tpl_updatedAt := t\<rparr>)
             (filter (\<lambda>r. tpl_id r = tpl_id mt) ts)))
   = Some c"
proof -
  assume "mt \<in> set ts"
  then obtain x rest where xs: "filter (\<lambda>r. tpl_id r = tpl_id mt) ts = x # rest"
    by (cases "filter (\<lambda>r. tpl_id r = tpl_id mt) ts") (auto simp add: filter_empty_conv)
  then have "x \<in> set (filter (\<lambda>r. tpl_id r = tpl_id mt) ts)" by simp
  then have "tpl_id x = tpl_id mt" by simp
  with xs show ?thesis
    using find_filter_out [of "\<lambda>r. tpl_id r = tpl_id mt" ts]
    by (simp add: find_append)
qed

lemma find_id_other:
  "j \<noteq> tpl_id mt \<Longrightarrow>
   find (\<lambda>r. tpl_id r = j)
     (filter (\<lambda>r. tpl_id r \<noteq> tpl_id mt) ts
      @ map (\<lambda>r. r\<lparr>usageCount := c, tpl_updatedAt := t\<rparr>)
          (filter (\<lambda>r. tpl_id r = tpl_id mt) ts))
   = find (\<lambda>r. tpl_id r = j) ts"
proof -
  assume j: "j \<noteq> tpl_id mt"
  have none: "find (\<lambda>r. tpl_id r = j)
                (map (\<lambda>r. r\<lparr>usageCount := c, tpl_updatedAt := t\<rparr>)
                   (filter (\<lambda>r. tpl_id r = tpl_id mt) ts)) = None"
    using j by (induction ts) auto
  have "find (\<lambda>r. tpl_id r = j) (filter (\<lambda>r. tpl_id r \<noteq> tpl_id mt) ts)
          = find (\<lambda>r. tpl_id r = j) ts"
    using j by (intro find_filter_keeping) auto
  with none show ?thesis by (simp add: find_append split: option.splits)
qed

lemma find_id_distinct:
  "distinct (map tpl_id ts) \<Longrightarrow> mt \<in> set ts \<Longrightarrow> find (\<lambda>r. tpl_id r = tpl_id mt) ts = Some mt"
  by (induction ts) (auto simp add: image_iff)

lemma ids_updated:
  "distinct (map tpl_id ts) \<Longrightarrow>
   distinct (map tpl_id
     (filter (\<lambda>r. tpl_id r \<noteq> k) ts
      @ map (\<lambda>r. r\<lparr>usageCount := c, tpl_updatedAt := t\<rparr>) (filter (\<lambda>r. tpl_id r = k) ts)))"
  by (induction ts) (auto simp add: image_iff)

lemma turn_usage_all:
  assumes d: "distinct (map tpl_id (rows (templates (db w))))"
  shows "distinct (map tpl_id (rows (templates (db (snd (generateResponse text pid e w))))))
      \<and> (resolvedTo i (fst (generateResponse text pid e w)) \<longrightarrow>
           (\<exists>c. usageCountOf i w = Some c
                \<and> usageCountOf i (snd (generateResponse text pid e w)) = Some (c + 1)))
      \<and> (usageCountOf j w = Some c \<longrightarrow>
           (\<exists>c'. usageCountOf j (snd (generateResponse text pid e w)) = Some c' \<and> c \<le> c'))"
proof -
  let ?ts = "rows (templates (db w))"
  let ?w' = "snd (generateResponse text pid e w)"
  from generateResponse_templates [of "text" pid e w]
  consider (same) "rows (templates (db ?w')) = ?ts"
      "\<forall>i. \<not> resolvedTo i (fst (generateResponse text pid e w))"
    | (bumped) mt t where "mt \<in> set ?ts"
      "rows (templates (db ?w')) =
         filter (\<lambda>r. tpl_id r \<noteq> tpl_id mt) ?ts
         @ map (\<lambda>r. r\<lparr>usageCount := usageCount mt + 1, tpl_updatedAt := t\<rparr>)
             (filter (\<lambda>r. tpl_id r = tpl_id mt) ?ts)"
      "\<forall>i. resolvedTo i (fst (generateResponse text pid e w)) \<longrightarrow> i = tpl_id mt"
    by blast
  then show ?thesis
  proof cases
    case same
    with d show ?thesis by (auto simp add: usageCountOf_def)
  next
    case bumped
    have before: "usageCountOf (tpl_id mt) w = Some (usageCount mt)"
      using find_id_distinct [OF d bumped(1)] by (simp add: usageCountOf_def)
    have after: "usageCountOf (tpl_id mt) ?w' = Some (usageCount mt + 1)"
      unfolding usageCountOf_def bumped(2) by (rule find_id_updated [OF bumped(1)])
    have other: "usageCountOf k ?w' = usageCountOf k w" if "k \<noteq> tpl_id mt" for k
      unfolding usageCountOf_def bumped(2) by (simp only: find_id_other [OF that])
    have "distinct (map tpl_id (rows (templates (db ?w'))))"
      unfolding bumped(2) by (rule ids_updated [OF d])
    moreover have "resolvedTo i (fst (generateResponse text pid e w)) \<longrightarrow>
           (\<exists>c. usageCountOf i w = Some c \<and> usageCountOf i ?w' = Some (c + 1))"
      using bumped(3) before after by auto
    moreover have "usageCountOf j w = Some c \<longrightarrow> (\<exists>c'. usageCountOf j ?w' = Some c' \<and> c \<le> c')"
    proof (cases "j = tpl_id mt")
      case True
      with before after show ?thesis by auto
    next
      case False
      with other show ?thesis by auto
    qed
    ultimately show ?thesis by blast
  qed
qed

lemma turn_usage:
  assumes "distinct (map tpl_id (rows (templates (db w))))"
  shows "distinct (map tpl_id (rows (templates (db (snd (generateResponse text pid e w))))))"
    and "resolvedTo i (fst (generateResponse text pid e w)) \<Longrightarrow>
           \<exists>c. usageCountOf i w = Some c
               \<and> usageCountOf i (snd (generateResponse text pid e w)) = Some (c + 1)"
    and "usageCountOf j w = Some c \<Longrightarrow>
           \<exists>c'. usageCountOf j (snd (generateResponse text pid e w)) = Some c' \<and> c \<le> c'"
  using turn_usage_all [OF assms] by blast+

lemma runTurns_Cons:
  "runTurns ((message, platformId) # rest) e w =
     (fst (generateResponse message platformId e w)
        # fst (runTurns rest e (snd (generateResponse message platformId e w))),
      snd (runTurns rest e (snd (generateResponse message platformId e w))))"
  by (simp split: prod.splits)

lemma runTurns_never_decreases:
  "distinct (map tpl_id (rows (templates (db w)))) \<Longrightarrow> usageCountOf j w = Some c \<Longrightarrow>
   \<exists>c'. usageCountOf j (snd (runTurns turns e w)) = Some c' \<and> c \<le> c'"
proof (induction turns arbitrary: w c)
  case Nil
  then show ?case by simp
next
  case (Cons turn turns)
  obtain message platformId where turn: "turn = (message, platformId)" by (cases turn)
  let ?w1 = "snd (generateResponse message platformId e w)"
  from turn_usage(3) [OF Cons.prems(1) Cons.prems(2), of message platformId e]
  obtain c1 where c1: "usageCountOf j ?w1 = Some c1" "c \<le> c1" by blast
  from Cons.IH [OF turn_usage(1) [OF Cons.prems(1)] c1(1)]
  obtain c' where "usageCountOf j (snd (runTurns turns e ?w1)) = Some c'" "c1 \<le> c'" by blast
  with c1(2) show ?case unfolding turn runTurns_Cons by auto
qed

lemma runTurns_exact:
  "distinct (map tpl_id (rows (templates (db w)))) \<Longrightarrow>
   \<forall>r \<in> set (fst (runTurns turns e w)). resolvedTo i r \<Longrightarrow>
   usageCountOf i (snd (runTurns turns e w))
     = map_option (\<lambda>c. c + int (length turns)) (usageCountOf i w)
   \<and> (turns \<noteq> [] \<longrightarrow> usageCountOf i w \<noteq> None)"
proof (induction turns arbitrary: w)
  case Nil
  then show ?case by (simp add: option.map_ident)
next
  case (Cons turn turns)
  obtain message platformId where turn: "turn = (message, platformId)" by (cases turn)
  let ?w1 = "snd (generateResponse message platformId e w)"
  from Cons.prems(2) have r1: "resolvedTo i (fst (generateResponse message platformId e w))"
    and rest: "\<forall>r \<in> set (fst (runTurns turns e ?w1)). resolvedTo i r"
    unfolding turn runTurns_Cons by simp_all
  from turn_usage(2) [OF Cons.prems(1) r1]
  obtain c where c: "usageCountOf i w = Some c" "usageCountOf i ?w1 = Some (c + 1)" by blast
  from Cons.IH [OF turn_usage(1) [OF Cons.prems(1)] rest]
  have "usageCountOf i (snd (runTurns turns e ?w1))
          = map_option (\<lambda>c. c + int (length turns)) (usageCountOf i ?w1)" by blast
  with c show ?case unfolding turn runTurns_Cons by simp
qed

lemma intent_processMessage:
  "intent (processMessage message) = classifyIntent (trim (toLowerCase message))"
  by (simp add: processMessage_def Let_def)

lemma intent_hi: "intent (processMessage ''Hi'') = ''greeting''"
  by (simp add: intent_processMessage classifyIntent_def string_defs)

lemmas counter_defs = run_defs example_defs counterDatabase_def retiredTemplate_def
  orderTemplate_def intent_hello_there intent_hi confidence_processMessage
  entities_processMessage templateMatches_def string_defs renderTemplate_def

text \<open>
  A turn resolves to a template only where the configured threshold is 0 or less: the
  classified confidence is always 0.75.
\<close>

lemma resolved_needs_threshold_below_one:
  assumes "resolvedTo i (fst (generateResponse text pid e w))"
    and "rows (botConfigs (db w)) = cfg # rest"
  shows "confidenceThreshold cfg \<le> 0"
proof (rule ccontr)
  assume "\<not> confidenceThreshold cfg \<le> 0"
  then have "1 \<le> confidenceThreshold cfg" by simp
  then have "(1 :: rat) \<le> of_int (confidenceThreshold cfg)" by simp
  then have below: "confidence (processMessage text) < of_int (confidenceThreshold cfg)"
    by (simp add: confidence_processMessage)
  show False
  proof (cases "fails e GetBotConfig (tick w)")
    case True
    then have "\<exists>x. fst (generateResponse text pid e w) = Inl x"
      by (simp add: generateResponse_def generateResponseAmid_def io_bind_def getBotConfig_def
            storageCall_def Let_def)
    with assms(1) show False by auto
  next
    case False
    from generateResponse_below [OF False assms(2) below, of pid] assms(1)
    show False by simp
  qed
qed

text \<open>
  C6, as the specification states it: no operation of the response selector ever
  decreases a template's usage counter. This fails: the update of a turn writes the
  counter that the turn read, plus one. Here a turn reads the greeting template with
  counter 3; before the database executes its update, two other turns resolve to the
  same template and raise the counter to 5; the update of the first turn then sets it
  to 4. All three turns resolved to the template, and its counter rose by 1.
\<close>

theorem C6_stale_update_lowers_counter:
  "usageCountOf 7 (initialWorld counterDatabase) = Some 3
   \<and> list_all (resolvedTo 7)
        (fst (runTurns [(''Hi'', 1), (''Hi'', 1)] quietEnv
                (snd (getAllTemplates quietEnv
                        (snd (getBotConfig quietEnv (initialWorld counterDatabase)))))))
   \<and> usageCountOf 7
        (snd (runTurns [(''Hi'', 1), (''Hi'', 1)] quietEnv
                (snd (getAllTemplates quietEnv
                        (snd (getBotConfig quietEnv (initialWorld counterDatabase)))))))
       = Some 5
   \<and> resolvedTo 7
        (fst (generateResponseAmid (otherTurns [(''Hi'', 1), (''Hi'', 1)]) ''hello there'' 1
                quietEnv (initialWorld counterDatabase)))
   \<and> usageCountOf 7
        (snd (generateResponseAmid (otherTurns [(''Hi'', 1), (''Hi'', 1)]) ''hello there'' 1
                quietEnv (initialWorld counterDatabase)))
       = Some 4"
  by (simp add: counter_defs otherTurns_def usageCountOf_def split: prod.splits)

text \<open>
  C6, amended. Template ids being distinct (the id is the primary key): for every
  sequence of N turns that run one after the other, no store operation of another
  request in between, and that each resolve to the template with id \<open>i\<close>, that template
  exists and its usage counter after the turns is its counter before plus N; and
  whatever such turns and their outcomes, no template's usage counter is lower after
  them than before.
\<close>

theorem C6_usage_counter:
  assumes "distinct (map tpl_id (rows (templates (db w))))"
  shows "((\<forall>r \<in> set (fst (runTurns turns e w)). resolvedTo i r) \<longrightarrow>
            usageCountOf i (snd (runTurns turns e w))
              = map_option (\<lambda>c. c + int (length turns)) (usageCountOf i w)
            \<and> (turns \<noteq> [] \<longrightarrow> usageCountOf i w \<noteq> None))
         \<and> (\<forall>j c. usageCountOf j w = Some c \<longrightarrow>
               (\<exists>c'. usageCountOf j (snd (runTurns turns e w)) = Some c' \<and> c \<le> c'))"
  using runTurns_exact [OF assms] runTurns_never_decreases [OF assms] by blast

theorem C6_usage_counter_witness:
  "distinct (map tpl_id (rows (templates (db (initialWorld counterDatabase)))))
   \<and> list_all (resolvedTo 7)
         (fst (runTurns [(''hello there'', 1), (''Hi'', 2)] quietEnv (initialWorld counterDatabase)))
   \<and> usageCountOf 7 (initialWorld counterDatabase) = Some 3
   \<and> usageCountOf 7 (snd (runTurns [(''hello there'', 1), (''Hi'', 2)] quietEnv
                             (initialWorld counterDatabase))) = Some 5
   \<and> (\<exists>c'. usageCountOf 2 (snd (runTurns [(''hello there'', 1), (''Hi'', 2)] quietEnv
                             (initialWorld counterDatabase))) = Some c' \<and> 0 \<le> c')"
proof -
  let ?w = "initialWorld counterDatabase"
  let ?turns = "[(''hello there'', 1), (''Hi'', 2)]"
  have d: "distinct (map tpl_id (rows (templates (db ?w))))"
    by (simp add: initialWorld_def counterDatabase_def retiredTemplate_def orderTemplate_def)
  have r: "\<forall>r \<in> set (fst (runTurns ?turns quietEnv ?w)). resolvedTo 7 r"
    by (simp add: counter_defs split: prod.splits)
  have c: "usageCountOf 7 ?w = Some 3"
    by (simp add: usageCountOf_def initialWorld_def counterDatabase_def retiredTemplate_def)
  have c1: "usageCountOf 2 ?w = Some 0"
    by (simp add: usageCountOf_def initialWorld_def counterDatabase_def retiredTemplate_def
          orderTemplate_def)
  from C6_usage_counter [OF d, of ?turns quietEnv 7] r c c1
  have "usageCountOf 7 (snd (runTurns ?turns quietEnv ?w)) = Some 5"
    and "\<exists>c'. usageCountOf 2 (snd (runTurns ?turns quietEnv ?w)) = Some c' \<and> 0 \<le> c'"
    by auto
  with d r c show ?thesis by (simp add: list_all_iff)
qed

text \<open>
  Where two stored templates match the intent, a turn that resolves to the first of them
  moves it behind the other: the next turn resolves to the other template.
\<close>

lemma next_turn_resolves_to_other_template:
  "map (map_sum id templateId)
     (fst (runTurns [(''hello there'', 1), (''Hi'', 2)] quietEnv (initialWorld retiredDatabase)))
     = [Inr (Some 7), Inr (Some 1)]
   \<and> map (\<lambda>t. (tpl_id t, usageCount t))
       (rows (templates (db (snd (runTurns [(''hello there'', 1), (''Hi'', 2)] quietEnv
                                    (initialWorld retiredDatabase))))))
     = [(7, 4), (1, 1)]"
  by (simp add: run_defs example_defs retiredDatabase_def retiredTemplate_def intent_hello_there
        intent_hi confidence_processMessage entities_processMessage templateMatches_def
        string_defs renderTemplate_def split: prod.splits)

section \<open>The webhook handlers\<close>




subsection \<open>Telegram: the handler awaits the processing\<close>




subsection \<open>WhatsApp and Messenger: the handler does not await the processing\<close>




















section \<open>The snapshot for a new observer\<close>




















end
